theory Spec2Isabelle
  imports Complex_Main
begin

section \<open>Shared data: errors and the per-frame pose dictionary\<close>

text \<open>
  The Python exceptions the modelled functions can raise. \<open>AttributeError\<close> is raised by
  \<^verbatim>\<open>frame.copy()\<close> on \<^verbatim>\<open>None\<close>, \<open>ValueError\<close> by \<^verbatim>\<open>int(nan)\<close>, \<open>OverflowError\<close> by
  \<^verbatim>\<open>int(inf)\<close>, \<open>IndexError\<close> by an out-of-range keypoint index, and \<open>CvError\<close> stands for
  an error of an OpenCV call.
\<close>

datatype py_error = AttributeError | ValueError | OverflowError | IndexError | CvError

text \<open>
  \<^verbatim>\<open>pose_data\<close> is the dictionary built by \<^verbatim>\<open>PoseEngine.process\<close>. Only the keys read by the
  segmenter, the speed estimator and the coach are kept. A field is \<open>None\<close> when the key is
  absent (or, for \<^verbatim>\<open>wrist\<close>, bound to \<^verbatim>\<open>None\<close>); \<^verbatim>\<open>dict.get(key, 0)\<close> becomes \<open>get0\<close>.
  Frames and grayscale images are values of the abstract types \<open>'f\<close> and \<open>'g\<close>.
\<close>

record ('f, 'g) pose_data =
  elbow :: "int option"
  knee :: "int option"
  annotated :: "'f option"
  wrist :: "(int \<times> int) option"
  gray :: "'g option"

definition get0 :: "'a::zero option \<Rightarrow> 'a" where
  "get0 v = (case v of None \<Rightarrow> 0 | Some x \<Rightarrow> x)"

section \<open>Shot segmenter (\<^verbatim>\<open>shot_segmenter.py\<close>)\<close>

record shot =
  id_s :: int
  start_frame :: int

record 'f segmenter =
  current_shot :: "shot option"
  shot_id :: int
  frame_buffer :: "'f list"
  maxlen :: "nat option"

record 'f result =
  id_r :: int
  phase_r :: string
  started :: bool
  ended :: bool
  frames :: "'f list option"

text \<open>\<^verbatim>\<open>ShotSegmenter.__init__\<close>: \<^verbatim>\<open>deque(maxlen=buffer_size)\<close>, default 120.\<close>

definition init_segmenter :: "nat option \<Rightarrow> 'f segmenter" where
  "init_segmenter buffer_size =
     \<lparr>current_shot = None, shot_id = 0, frame_buffer = [], maxlen = buffer_size\<rparr>"

text \<open>
  \<^verbatim>\<open>deque.append\<close> on a bounded deque: the element goes to the right end and, when the
  bound is exceeded, elements are discarded from the left end.
\<close>

definition deque_append :: "nat option \<Rightarrow> 'a list \<Rightarrow> 'a \<Rightarrow> 'a list" where
  "deque_append m xs x =
     (case m of
        None \<Rightarrow> xs @ [x]
      | Some n \<Rightarrow> drop (length (xs @ [x]) - n) (xs @ [x]))"

definition detect_phase :: "int \<Rightarrow> string" where
  "detect_phase elbow_angle =
     (if elbow_angle > 150 then ''Backlift''
      else if elbow_angle > 120 then ''Downswing''
      else if elbow_angle > 90 then ''Contact''
      else ''FollowThrough'')"

text \<open>The four blocks of \<^verbatim>\<open>ShotSegmenter.update\<close>, in source order.\<close>

definition start_shot ::
  "string \<Rightarrow> int \<Rightarrow> 'f segmenter \<times> 'f result \<Rightarrow> 'f segmenter \<times> 'f result" where
  "start_shot phase frame_id sr =
     (case sr of (s, r) \<Rightarrow>
        if phase = ''Backlift'' \<and> current_shot s = None
        then (s\<lparr>shot_id := shot_id s + 1,
                current_shot := Some \<lparr>id_s = shot_id s + 1, start_frame = frame_id\<rparr>,
                frame_buffer := []\<rparr>,
              r\<lparr>started := True\<rparr>)
        else (s, r))"

text \<open>
  \<^verbatim>\<open>self.frame_buffer.append(frame.copy())\<close>; the call raises \<open>AttributeError\<close> when the
  dictionary has no \<^verbatim>\<open>annotated\<close> frame. Copying a frame value is the identity.
\<close>

definition buffer_frame :: "'f option \<Rightarrow> 'f segmenter \<Rightarrow> py_error + 'f segmenter" where
  "buffer_frame frame s =
     (case current_shot s of
        None \<Rightarrow> Inr s
      | Some _ \<Rightarrow>
          (case frame of
             None \<Rightarrow> Inl AttributeError
           | Some f \<Rightarrow> Inr (s\<lparr>frame_buffer := deque_append (maxlen s) (frame_buffer s) f\<rparr>)))"

definition end_shot ::
  "string \<Rightarrow> 'f segmenter \<times> 'f result \<Rightarrow> 'f segmenter \<times> 'f result" where
  "end_shot phase sr =
     (case sr of (s, r) \<Rightarrow>
        (case current_shot s of
           None \<Rightarrow> (s, r)
         | Some cs \<Rightarrow>
             if phase = ''FollowThrough''
             then (s\<lparr>current_shot := None, frame_buffer := []\<rparr>,
                   r\<lparr>id_r := id_s cs, ended := True, frames := Some (frame_buffer s)\<rparr>)
             else (s, r)))"

definition active_id :: "'f segmenter \<times> 'f result \<Rightarrow> 'f segmenter \<times> 'f result" where
  "active_id sr =
     (case sr of (s, r) \<Rightarrow>
        (case current_shot s of
           None \<Rightarrow> (s, r)
         | Some cs \<Rightarrow> (s, r\<lparr>id_r := id_s cs\<rparr>)))"

text \<open>
  \<^verbatim>\<open>ShotSegmenter.update\<close>. The segmenter is mutated in place, so the state is returned
  also when the call raises: the start block has run before the buffering block fails.
\<close>

definition update ::
  "'f segmenter \<Rightarrow> ('f, 'g) pose_data \<Rightarrow> int \<Rightarrow> 'f segmenter \<times> (py_error + 'f result)" where
  "update s pd frame_id =
     (let elbow_v = get0 (elbow pd);
          frame = annotated pd;
          phase = detect_phase elbow_v;
          r0 = \<lparr>id_r = shot_id s, phase_r = phase, started = False, ended = False,
                frames = None\<rparr>;
          (s1, r1) = start_shot phase frame_id (s, r0)
      in case buffer_frame frame s1 of
           Inl e \<Rightarrow> (s1, Inl e)
         | Inr s2 \<Rightarrow>
             (case active_id (end_shot phase (s2, r1)) of (s3, r3) \<Rightarrow> (s3, Inr r3)))"

text \<open>A frame dictionary as \<^verbatim>\<open>PoseEngine.process\<close> builds it for the segmenter.\<close>

definition frame_of :: "int \<Rightarrow> 'f \<Rightarrow> ('f, 'g) pose_data" where
  "frame_of e f = \<lparr>elbow = Some e, knee = Some 0, annotated = Some f, wrist = None, gray = None\<rparr>"

text \<open>
  The engine calls \<^verbatim>\<open>update\<close> once per frame on the same segmenter object; a call that
  raises still leaves its mutations behind, and the stream goes on with the next frame.
\<close>

fun run_segmenter ::
  "'f segmenter \<Rightarrow> (('f, 'g) pose_data \<times> int) list \<Rightarrow> 'f segmenter" where
  "run_segmenter s [] = s"
| "run_segmenter s (c # cs) = run_segmenter (fst (update s (fst c) (snd c))) cs"

text \<open>
  The dictionary \<^verbatim>\<open>PoseEngine.process\<close> returns when nothing is detected, the target is
  not among the detections, or reading the keypoints raised: the defaults set before the
  detection, with the annotated frame and the grayscale copy of the frame.
\<close>

definition process_fallback :: "'f \<Rightarrow> 'g \<Rightarrow> ('f, 'g) pose_data" where
  "process_fallback a g =
     \<lparr>elbow = Some 0, knee = Some 0, annotated = Some a, wrist = None, gray = Some g\<rparr>"

text \<open>
  Two concrete runs of a fresh segmenter (frames are numbered): a shot that started and
  ended, and a shot that started and is still active.
\<close>

definition one_shot_then_idle :: "nat segmenter" where
  "one_shot_then_idle =
     run_segmenter (init_segmenter (Some 120))
       [(frame_of 160 (1::nat) :: (nat, unit) pose_data, 0), (frame_of 80 2, 1)]"

definition shot_in_progress :: "nat segmenter" where
  "shot_in_progress =
     run_segmenter (init_segmenter (Some 120))
       [(frame_of 160 (1::nat) :: (nat, unit) pose_data, 0), (frame_of 130 2, 1)]"

section \<open>Numbers\<close>

text \<open>
  \<^verbatim>\<open>int(x)\<close> truncates toward zero. \<open>round_half_even\<close> is rounding to the nearest integer,
  ties to the even one (C's \<^verbatim>\<open>rint\<close>).
\<close>

definition py_int :: "real \<Rightarrow> int" where
  "py_int x = (if 0 \<le> x then \<lfloor>x\<rfloor> else \<lceil>x\<rceil>)"

definition round_half_even :: "real \<Rightarrow> int" where
  "round_half_even y =
     (let f = \<lfloor>y\<rfloor>; d = y - of_int f
      in if d < 1 / 2 then f
         else if 1 / 2 < d then f + 1
         else if even f then f else f + 1)"

text \<open>
  The speed estimator and the coach compute with Python floats and NumPy \<^verbatim>\<open>float64\<close>
  scalars, that is, with IEEE binary64 numbers. A finite float is the real number it
  denotes; every arithmetic operation of the source returns the exact result rounded to
  a float, and a decimal literal is the float nearest to it. The rounding and the three
  library calls are parameters of the model:
  \<^item> \<open>fl\<close>, the rounding of an exact result to a float;
  \<^item> \<open>linalg_norm\<close>, \<^verbatim>\<open>np.linalg.norm\<close> of a vector of two \<^verbatim>\<open>int64\<close> numbers;
  \<^item> \<open>np_mean\<close>, \<^verbatim>\<open>np.mean\<close> of a non-empty sequence of floats;
  \<^item> \<open>round2\<close>, \<^verbatim>\<open>round(x, 2)\<close> on a float.
  What is proved for every value of the parameters holds whatever the platform computes;
  the numbers involved stay far below the overflow threshold for frame rates up to
  \<open>10\<^sup>6\<close>.
\<close>

record float_ops =
  fl :: "real \<Rightarrow> real"
  linalg_norm :: "int \<times> int \<Rightarrow> real"
  np_mean :: "real list \<Rightarrow> real"
  round2 :: "real \<Rightarrow> real"

text \<open>
  IEEE binary64 rounding to nearest, ties to even, of a real below the overflow threshold:
  53 significant bits, and multiples of \<open>2\<^sup>-\<^sup>1\<^sup>0\<^sup>7\<^sup>4\<close> in the subnormal range.
\<close>

definition fl64 :: "real \<Rightarrow> real" where
  "fl64 x =
     (if x = 0 then 0
      else (let e = max (\<lfloor>log 2 \<bar>x\<bar>\<rfloor> - 52) (- 1074)
            in of_int (round_half_even (x / 2 powr of_int e)) * 2 powr of_int e))"

text \<open>
  The binary64 instance of the parameters. The norm is the correctly rounded square root
  of the sum of squares, which is exact for coordinates below \<open>2\<^sup>2\<^sup>6\<close> in magnitude.
  \<^verbatim>\<open>np.mean\<close> adds the running sum of the other elements to the first element and divides
  by the length. \<^verbatim>\<open>round\<close> on a \<^verbatim>\<open>float64\<close> scalar multiplies by 100, rounds to the nearest
  integer and divides by 100.
\<close>

definition linalg_norm64 :: "int \<times> int \<Rightarrow> real" where
  "linalg_norm64 d = fl64 (sqrt (of_int ((fst d)\<^sup>2 + (snd d)\<^sup>2)))"

definition mean64 :: "real list \<Rightarrow> real" where
  "mean64 xs =
     (case xs of
        [] \<Rightarrow> 0
      | x # rest \<Rightarrow>
          fl64 (fl64 (x + foldl (\<lambda>s y. fl64 (s + y)) 0 rest) / of_nat (length xs)))"

definition round2_64 :: "real \<Rightarrow> real" where
  "round2_64 x = fl64 (of_int (round_half_even (fl64 (x * 100))) / 100)"

definition ieee64 :: float_ops where
  "ieee64 = \<lparr>fl = fl64, linalg_norm = linalg_norm64, np_mean = mean64, round2 = round2_64\<rparr>"

text \<open>
  Python's own \<^verbatim>\<open>round\<close> on a float is correctly rounded instead: the two-decimal number
  nearest to the exact value, ties to even, and then the float nearest to that. The
  instance \<open>ieee64_py\<close> differs from \<open>ieee64\<close> in this only; it is what the code computes
  where \<^verbatim>\<open>round\<close> is given a Python float rather than a NumPy scalar.
\<close>

definition round2_py :: "real \<Rightarrow> real" where
  "round2_py x = fl64 (of_int (round_half_even (x * 100)) / 100)"

definition ieee64_py :: float_ops where
  "ieee64_py = ieee64\<lparr>round2 := round2_py\<rparr>"

text \<open>
  \<^verbatim>\<open>np.array(p) - np.array(q)\<close> for two integer pixel positions: the arrays hold \<^verbatim>\<open>int64\<close>
  numbers, and their difference wraps around.
\<close>

definition wrap64 :: "int \<Rightarrow> int" where
  "wrap64 d = (d + 2 ^ 63) mod 2 ^ 64 - 2 ^ 63"

definition px_diff :: "int \<times> int \<Rightarrow> int \<times> int \<Rightarrow> int \<times> int" where
  "px_diff p q = (wrap64 (fst p - fst q), wrap64 (snd p - snd q))"

section \<open>Coach (\<^verbatim>\<open>coach.py\<close>)\<close>

text \<open>The dictionary returned by \<^verbatim>\<open>SpeedEstimator.update\<close>; \<open>None\<close> is an absent key.\<close>

record speed_data =
  bat_speed :: "real option"
  ball_speed :: "real option"
  arm_speed :: "real option"

record coach =
  MIN_BAT_SPEED :: real
  MIN_ELBOW_ANGLE :: int
  MIN_KNEE_ANGLE :: int

definition init_coach :: coach where
  "init_coach = \<lparr>MIN_BAT_SPEED = 60, MIN_ELBOW_ANGLE = 120, MIN_KNEE_ANGLE = 140\<rparr>"

text \<open>
  The feedback texts. The source strings hold an en dash (U+2013) and a thumbs-up sign
  (U+1F44D); they are written here as their UTF-8 bytes.
\<close>

definition en_dash :: string where
  "en_dash = [CHR 0xE2, CHR 0x80, CHR 0x93]"

definition thumbs_up :: string where
  "thumbs_up = [CHR 0xF0, CHR 0x9F, CHR 0x91, CHR 0x8D]"

definition feedback_power :: string where
  "feedback_power = ''Increase bat swing speed for better power''"

definition feedback_elbow :: string where
  "feedback_elbow = ''Start downswing earlier '' @ en_dash @ '' elbow collapsing''"

definition feedback_knee :: string where
  "feedback_knee = ''Bend front knee more for balance''"

definition feedback_forearm :: string where
  "feedback_forearm = ''Accelerate forearm more through contact''"

definition feedback_contact :: string where
  "feedback_contact = ''Late contact '' @ en_dash @ '' meet the ball earlier''"

definition feedback_excellent :: string where
  "feedback_excellent = ''Excellent shot mechanics '' @ thumbs_up"

definition feedback_default :: string where
  "feedback_default = ''Good control '' @ en_dash @ '' keep consistency''"

text \<open>
  \<^verbatim>\<open>Coach.evaluate\<close>; the result is the value bound to \<^verbatim>\<open>"feedback"\<close>. A number is
  truthy when it is not zero. The products \<^verbatim>\<open>bat_speed * 0.6\<close> and \<^verbatim>\<open>bat_speed * 0.7\<close> are
  float products; the comparisons are exact.
\<close>

definition evaluate ::
  "float_ops \<Rightarrow> coach \<Rightarrow> ('f, 'g) pose_data \<Rightarrow> speed_data \<Rightarrow> string" where
  "evaluate ops self pd sd =
     (let elbow_v = get0 (elbow pd);
          knee_v = get0 (knee pd);
          bat = get0 (bat_speed sd);
          arm = get0 (arm_speed sd);
          ball = get0 (ball_speed sd)
      in if bat \<noteq> 0 \<and> bat < MIN_BAT_SPEED self then feedback_power
         else if elbow_v \<noteq> 0 \<and> elbow_v < MIN_ELBOW_ANGLE self then feedback_elbow
         else if knee_v \<noteq> 0 \<and> knee_v < MIN_KNEE_ANGLE self then feedback_knee
         else if arm \<noteq> 0 \<and> arm < fl ops (bat * fl ops 0.6) then feedback_forearm
         else if ball \<noteq> 0 \<and> ball < fl ops (bat * fl ops 0.7) then feedback_contact
         else if 80 \<le> bat \<and> 140 \<le> elbow_v \<and> 150 \<le> knee_v then feedback_excellent
         else feedback_default)"

text \<open>
  The coach as the specification words it: an ordered table of (predicate, message) pairs,
  the first pair whose predicate holds giving the message, each numeric guard skipped on a
  zero input. \<open>0.6\<close> times and \<open>0.7\<close> times the bat speed are float products.
\<close>

fun first_match :: "(bool \<times> string) list \<Rightarrow> string \<Rightarrow> string" where
  "first_match [] d = d"
| "first_match (r # rs) d = (if fst r then snd r else first_match rs d)"

definition measured_below :: "'a::linordered_idom \<Rightarrow> 'a \<Rightarrow> bool" where
  "measured_below x t = (x \<noteq> 0 \<and> x < t)"

definition coach_rules_spec ::
  "float_ops \<Rightarrow> coach \<Rightarrow> ('f, 'g) pose_data \<Rightarrow> speed_data \<Rightarrow> (bool \<times> string) list" where
  "coach_rules_spec ops self pd sd =
     [(measured_below (get0 (bat_speed sd)) (MIN_BAT_SPEED self), feedback_power),
      (measured_below (get0 (elbow pd)) (MIN_ELBOW_ANGLE self), feedback_elbow),
      (measured_below (get0 (knee pd)) (MIN_KNEE_ANGLE self), feedback_knee),
      (measured_below (get0 (arm_speed sd)) (fl ops (fl ops 0.6 * get0 (bat_speed sd))),
       feedback_forearm),
      (measured_below (get0 (ball_speed sd)) (fl ops (fl ops 0.7 * get0 (bat_speed sd))),
       feedback_contact),
      (80 \<le> get0 (bat_speed sd) \<and> 140 \<le> get0 (elbow pd) \<and> 150 \<le> get0 (knee pd),
       feedback_excellent)]"

text \<open>
  Concrete inputs: bat speed 50 with elbow 100; the same with no bat speed measured; and
  the floats 64.9 and 38.94, a bat speed and the arm speed the estimator derives from it.
\<close>

definition slow_bat_bent_elbow :: "(nat, unit) pose_data \<times> speed_data" where
  "slow_bat_bent_elbow =
     (\<lparr>elbow = Some 100, knee = Some 0, annotated = Some 0, wrist = None, gray = None\<rparr>,
      \<lparr>bat_speed = Some 50, ball_speed = Some 0, arm_speed = Some 30\<rparr>)"

definition no_bat_bent_elbow :: "(nat, unit) pose_data \<times> speed_data" where
  "no_bat_bent_elbow =
     (\<lparr>elbow = Some 100, knee = Some 0, annotated = Some 0, wrist = None, gray = None\<rparr>,
      \<lparr>bat_speed = Some 0, ball_speed = Some 0, arm_speed = Some 0\<rparr>)"

definition arm_at_rounded_ratio :: "(nat, unit) pose_data \<times> speed_data" where
  "arm_at_rounded_ratio =
     (\<lparr>elbow = Some 0, knee = Some 0, annotated = Some 0, wrist = None, gray = None\<rparr>,
      \<lparr>bat_speed = Some (fl64 64.9), ball_speed = Some 0, arm_speed = Some (fl64 38.94)\<rparr>)"

section \<open>Speed estimator (\<^verbatim>\<open>speed_estimator.py\<close>)\<close>

record 'g speed_estimator =
  fps :: real
  meters_per_pixel :: real
  prev_wrist :: "(int \<times> int) option"
  bat_ema :: "real option"
  alpha :: real
  prev_gray :: "'g option"
  prev_ball_center :: "(int \<times> int) option"
  ball_speeds :: "real list"

text \<open>\<^verbatim>\<open>SpeedEstimator.__init__\<close>; \<^verbatim>\<open>ball_speeds\<close> is a \<^verbatim>\<open>deque(maxlen=5)\<close>.\<close>

definition init_speed_estimator :: "float_ops \<Rightarrow> real \<Rightarrow> 'g speed_estimator" where
  "init_speed_estimator ops fps_arg =
     \<lparr>fps = fps_arg, meters_per_pixel = fl ops 0.0025, prev_wrist = None, bat_ema = None,
      alpha = fl ops 0.3, prev_gray = None, prev_ball_center = None, ball_speeds = []\<rparr>"

text \<open>
  \<^verbatim>\<open>px_dist * self.meters_per_pixel * self.fps * 3.6\<close>, three float products from left to
  right; the source writes it once for the bat and once for the ball.
\<close>

definition speed_kmh :: "float_ops \<Rightarrow> 'g speed_estimator \<Rightarrow> real \<Rightarrow> real" where
  "speed_kmh ops self px_dist =
     fl ops (fl ops (fl ops (px_dist * meters_per_pixel self) * fps self) * fl ops 3.6)"

text \<open>\<^verbatim>\<open>SpeedEstimator._bat_speed\<close>: the new state and the returned speed.\<close>

definition SpeedEstimator_bat_speed ::
  "float_ops \<Rightarrow> 'g speed_estimator \<Rightarrow> (int \<times> int) option \<Rightarrow> 'g speed_estimator \<times> real" where
  "SpeedEstimator_bat_speed ops self w =
     (case w of
        None \<Rightarrow> (self\<lparr>prev_wrist := w\<rparr>, 0)
      | Some wp \<Rightarrow>
          (case prev_wrist self of
             None \<Rightarrow> (self\<lparr>prev_wrist := w\<rparr>, 0)
           | Some pp \<Rightarrow>
               (let px_dist = linalg_norm ops (px_diff wp pp);
                    raw_speed = speed_kmh ops self px_dist;
                    ema = (case bat_ema self of
                             None \<Rightarrow> raw_speed
                           | Some e \<Rightarrow>
                               fl ops (fl ops (alpha self * raw_speed)
                                       + fl ops (fl ops (1 - alpha self) * e)))
                in (self\<lparr>prev_wrist := w, bat_ema := Some ema\<rparr>,
                    round2 ops (min ema 160)))))"

text \<open>
  The estimator after \<^verbatim>\<open>_bat_speed\<close> has been called on each wrist observation of a stream
  in turn, and the speeds these calls return.
\<close>

fun run_bat ::
  "float_ops \<Rightarrow> 'g speed_estimator \<Rightarrow> (int \<times> int) option list \<Rightarrow> 'g speed_estimator" where
  "run_bat ops self [] = self"
| "run_bat ops self (w # ws) = run_bat ops (fst (SpeedEstimator_bat_speed ops self w)) ws"

fun bat_speeds ::
  "float_ops \<Rightarrow> 'g speed_estimator \<Rightarrow> (int \<times> int) option list \<Rightarrow> real list" where
  "bat_speeds ops self [] = []"
| "bat_speeds ops self (w # ws) =
     snd (SpeedEstimator_bat_speed ops self w)
       # bat_speeds ops (fst (SpeedEstimator_bat_speed ops self w)) ws"

text \<open>
  The bat speed as the specification words it, with every product and sum a float
  operation: the raw speed of a displacement; the recurrence
  \<open>ema\<^sub>n = 0.3 * raw\<^sub>n + 0.7 * ema\<^sub>n\<^sub>-\<^sub>1\<close>, where 0.7 is \<open>1 - 0.3\<close>; the reported value, capped at
  160 and rounded to two decimals. \<open>bat_spec\<close> gives the reported speeds of a stream of
  observations from the stored previous wrist and the stored average: 0 on a frame without
  a wrist and on a wrist with no previous wrist stored, and the next value of the
  recurrence, seeded with the first raw speed, otherwise.
\<close>

definition raw_speed_spec :: "float_ops \<Rightarrow> real \<Rightarrow> int \<times> int \<Rightarrow> int \<times> int \<Rightarrow> real" where
  "raw_speed_spec ops f p w =
     fl ops (fl ops (fl ops (linalg_norm ops (px_diff w p) * fl ops 0.0025) * f) * fl ops 3.6)"

definition ema_step_spec :: "float_ops \<Rightarrow> real \<Rightarrow> real \<Rightarrow> real" where
  "ema_step_spec ops e r =
     fl ops (fl ops (fl ops 0.3 * r) + fl ops (fl ops (1 - fl ops 0.3) * e))"

definition reported_spec :: "float_ops \<Rightarrow> real \<Rightarrow> real" where
  "reported_spec ops e = round2 ops (min e 160)"

fun raw_speeds_spec ::
  "float_ops \<Rightarrow> real \<Rightarrow> int \<times> int \<Rightarrow> (int \<times> int) list \<Rightarrow> real list" where
  "raw_speeds_spec ops f p [] = []"
| "raw_speeds_spec ops f p (w # ws) = raw_speed_spec ops f p w # raw_speeds_spec ops f w ws"

fun ema_spec :: "float_ops \<Rightarrow> real \<Rightarrow> real list \<Rightarrow> real list" where
  "ema_spec ops e [] = []"
| "ema_spec ops e (r # rs) = ema_step_spec ops e r # ema_spec ops (ema_step_spec ops e r) rs"

fun bat_spec ::
  "float_ops \<Rightarrow> real \<Rightarrow> (int \<times> int) option \<Rightarrow> real option \<Rightarrow> (int \<times> int) option list \<Rightarrow>
   real list" where
  "bat_spec ops f p e [] = []"
| "bat_spec ops f p e (None # ws) = 0 # bat_spec ops f None e ws"
| "bat_spec ops f None e (Some w # ws) = 0 # bat_spec ops f (Some w) e ws"
| "bat_spec ops f (Some p) None (Some w # ws) =
     reported_spec ops (raw_speed_spec ops f p w)
       # bat_spec ops f (Some w) (Some (raw_speed_spec ops f p w)) ws"
| "bat_spec ops f (Some p) (Some e) (Some w # ws) =
     reported_spec ops (ema_step_spec ops e (raw_speed_spec ops f p w))
       # bat_spec ops f (Some w) (Some (ema_step_spec ops e (raw_speed_spec ops f p w))) ws"

text \<open>
  A contour as \<^verbatim>\<open>_ball_speed\<close> uses it: its \<^verbatim>\<open>cv2.contourArea\<close> and its
  \<^verbatim>\<open>cv2.boundingRect\<close> \<open>(x, y, w, h)\<close>.
\<close>

record contour =
  area :: real
  rect :: "int \<times> int \<times> int \<times> int"

text \<open>\<^verbatim>\<open>max(contours, key=cv2.contourArea)\<close>: the first contour of the largest area.\<close>

fun max_contour :: "contour \<Rightarrow> contour list \<Rightarrow> contour" where
  "max_contour c [] = c"
| "max_contour c (d # ds) = max_contour (if area c < area d then d else c) ds"

text \<open>
  \<^verbatim>\<open>SpeedEstimator._ball_speed\<close>. The OpenCV pipeline of the source (\<^verbatim>\<open>absdiff\<close>,
  \<^verbatim>\<open>threshold\<close>, \<^verbatim>\<open>medianBlur\<close>, \<^verbatim>\<open>findContours\<close>) is the parameter \<open>motion\<close>, from the
  previous and the current grayscale frame to the contours; \<open>Inl\<close> is an error of
  \<^verbatim>\<open>absdiff\<close>, raised before any attribute is assigned. A missing current frame with a
  previous one present is such an error too.
\<close>

definition SpeedEstimator_ball_speed ::
  "float_ops \<Rightarrow> ('g \<Rightarrow> 'g \<Rightarrow> py_error + contour list) \<Rightarrow> 'g speed_estimator \<Rightarrow> 'g option \<Rightarrow>
   'g speed_estimator \<times> (py_error + real)" where
  "SpeedEstimator_ball_speed ops motion self g =
     (case prev_gray self of
        None \<Rightarrow> (self\<lparr>prev_gray := g\<rparr>, Inr 0)
      | Some pg \<Rightarrow>
          (case g of
             None \<Rightarrow> (self, Inl CvError)
           | Some gr \<Rightarrow>
               (case motion pg gr of
                  Inl e \<Rightarrow> (self, Inl e)
                | Inr contours \<Rightarrow>
                    (let s1 = self\<lparr>prev_gray := g\<rparr>
                     in case contours of
                          [] \<Rightarrow> (s1, Inr 0)
                        | c0 # cs \<Rightarrow>
                            (let c = max_contour c0 cs; a = area c
                             in if a < 5 \<or> 300 < a then (s1, Inr 0)
                                else case rect c of (x, y, w, h) \<Rightarrow>
                                  (let center = (x + w div 2, y + h div 2)
                                   in case prev_ball_center s1 of
                                        None \<Rightarrow> (s1\<lparr>prev_ball_center := Some center\<rparr>, Inr 0)
                                      | Some pc \<Rightarrow>
                                          (let px_dist = linalg_norm ops (px_diff center pc);
                                               speed = speed_kmh ops s1 px_dist;
                                               bs = deque_append (Some 5) (ball_speeds s1) speed
                                           in (s1\<lparr>prev_ball_center := Some center,
                                                   ball_speeds := bs\<rparr>,
                                               Inr (round2 ops (min (np_mean ops bs) 160))))))))))"

text \<open>The estimator after \<^verbatim>\<open>_ball_speed\<close> has been called on each frame of a stream.\<close>

fun run_ball ::
  "float_ops \<Rightarrow> ('g \<Rightarrow> 'g \<Rightarrow> py_error + contour list) \<Rightarrow> 'g speed_estimator \<Rightarrow>
   'g option list \<Rightarrow> 'g speed_estimator" where
  "run_ball ops motion self [] = self"
| "run_ball ops motion self (g # gs) =
     run_ball ops motion (fst (SpeedEstimator_ball_speed ops motion self g)) gs"

text \<open>
  A frame has no qualifying contour when no contour is found or the area of the largest one
  is outside the range from 5 to 300.
\<close>

definition no_qualifying_contour :: "contour list \<Rightarrow> bool" where
  "no_qualifying_contour contours =
     (case contours of
        [] \<Rightarrow> True
      | c0 # cs \<Rightarrow> area (max_contour c0 cs) < 5 \<or> 300 < area (max_contour c0 cs))"

text \<open>
  A concrete stream of grayscale frames, numbered from 1: frame 2 shows a ball-sized
  contour around (12, 12), frame 3 shows no motion, frame 4 shows a speck and a ball-sized
  contour around (42, 52). \<open>ball_tracked\<close> is a fresh binary64 estimator at 30 fps after
  frames 1 and 2.
\<close>

definition ball_demo_motion :: "nat \<Rightarrow> nat \<Rightarrow> py_error + contour list" where
  "ball_demo_motion pg g =
     (if g = 2 then Inr [\<lparr>area = 50, rect = (10, 10, 4, 4)\<rparr>]
      else if g = 4
        then Inr [\<lparr>area = 2, rect = (0, 0, 1, 1)\<rparr>, \<lparr>area = 50, rect = (40, 50, 4, 4)\<rparr>]
      else Inr [])"

definition ball_tracked :: "nat speed_estimator" where
  "ball_tracked =
     run_ball ieee64 ball_demo_motion (init_speed_estimator ieee64 30) [Some 1, Some 2]"

text \<open>
  Wrist positions and ball centers are \<^verbatim>\<open>int64\<close> numbers.
\<close>

definition int64_point :: "int \<times> int \<Rightarrow> bool" where
  "int64_point p =
     (- (2 ^ 63) \<le> fst p \<and> fst p < 2 ^ 63 \<and> - (2 ^ 63) \<le> snd p \<and> snd p < 2 ^ 63)"

definition int64_obs :: "(int \<times> int) option \<Rightarrow> bool" where
  "int64_obs w = (case w of None \<Rightarrow> True | Some p \<Rightarrow> int64_point p)"

text \<open>
  The calibration fields never change: an estimator started at frame rate \<open>f\<close> keeps the
  floats of 0.0025 and 0.3 and the frame rate.
\<close>

definition calibrated :: "float_ops \<Rightarrow> real \<Rightarrow> 'g speed_estimator \<Rightarrow> bool" where
  "calibrated ops f self =
     (alpha self = fl ops 0.3 \<and> meters_per_pixel self = fl ops 0.0025 \<and> fps self = f)"

section \<open>Pose engine (\<^verbatim>\<open>pose_engine.py\<close>)\<close>

text \<open>
  The keypoints are NumPy floats, \<^verbatim>\<open>float32\<close> as the detector delivers them. A NumPy
  float is a finite number, an infinity or not a number; arithmetic on it does not raise.
\<close>

datatype npfloat = Fin real | PInf | NInf | NaN

text \<open>
  The exact results of the arithmetic operations on these values, before rounding, with
  the IEEE rules for the special values. Zero is the positive zero: the divisors of the
  source are a product of norms and a difference of a maximum and a minimum.
\<close>

fun xneg :: "npfloat \<Rightarrow> npfloat" where
  "xneg (Fin x) = Fin (- x)"
| "xneg PInf = NInf"
| "xneg NInf = PInf"
| "xneg NaN = NaN"

fun xadd :: "npfloat \<Rightarrow> npfloat \<Rightarrow> npfloat" where
  "xadd (Fin x) (Fin y) = Fin (x + y)"
| "xadd NaN y = NaN"
| "xadd x NaN = NaN"
| "xadd PInf NInf = NaN"
| "xadd NInf PInf = NaN"
| "xadd PInf y = PInf"
| "xadd NInf y = NInf"
| "xadd x PInf = PInf"
| "xadd x NInf = NInf"

definition xsub :: "npfloat \<Rightarrow> npfloat \<Rightarrow> npfloat" where
  "xsub x y = xadd x (xneg y)"

definition signed_inf :: "bool \<Rightarrow> npfloat" where
  "signed_inf positive = (if positive then PInf else NInf)"

fun xmul :: "npfloat \<Rightarrow> npfloat \<Rightarrow> npfloat" where
  "xmul (Fin x) (Fin y) = Fin (x * y)"
| "xmul NaN y = NaN"
| "xmul x NaN = NaN"
| "xmul PInf (Fin y) = (if y = 0 then NaN else signed_inf (0 < y))"
| "xmul NInf (Fin y) = (if y = 0 then NaN else signed_inf (y < 0))"
| "xmul (Fin x) PInf = (if x = 0 then NaN else signed_inf (0 < x))"
| "xmul (Fin x) NInf = (if x = 0 then NaN else signed_inf (x < 0))"
| "xmul PInf PInf = PInf"
| "xmul NInf NInf = PInf"
| "xmul PInf NInf = NInf"
| "xmul NInf PInf = NInf"

fun xdiv :: "npfloat \<Rightarrow> npfloat \<Rightarrow> npfloat" where
  "xdiv (Fin x) (Fin y) =
     (if y \<noteq> 0 then Fin (x / y) else if x = 0 then NaN else signed_inf (0 < x))"
| "xdiv NaN y = NaN"
| "xdiv x NaN = NaN"
| "xdiv (Fin x) PInf = Fin 0"
| "xdiv (Fin x) NInf = Fin 0"
| "xdiv PInf (Fin y) = signed_inf (0 \<le> y)"
| "xdiv NInf (Fin y) = signed_inf (y < 0)"
| "xdiv x y = NaN"

text \<open>Comparison, absolute value and \<^verbatim>\<open>np.clip\<close>; a comparison with not-a-number is false.\<close>

fun np_lt :: "npfloat \<Rightarrow> npfloat \<Rightarrow> bool" where
  "np_lt (Fin x) (Fin y) = (x < y)"
| "np_lt NaN y = False"
| "np_lt x NaN = False"
| "np_lt x NInf = False"
| "np_lt PInf y = False"
| "np_lt NInf y = True"
| "np_lt x PInf = True"

fun np_abs :: "npfloat \<Rightarrow> npfloat" where
  "np_abs (Fin x) = Fin \<bar>x\<bar>"
| "np_abs NaN = NaN"
| "np_abs x = PInf"

definition clip :: "real \<Rightarrow> real \<Rightarrow> real \<Rightarrow> real" where
  "clip x lo hi = min (max x lo) hi"

fun np_clip :: "npfloat \<Rightarrow> real \<Rightarrow> real \<Rightarrow> npfloat" where
  "np_clip (Fin x) lo hi = Fin (clip x lo hi)"
| "np_clip PInf lo hi = Fin hi"
| "np_clip NInf lo hi = Fin lo"
| "np_clip NaN lo hi = NaN"

text \<open>\<^verbatim>\<open>int(x)\<close> on a NumPy float.\<close>

fun to_int :: "npfloat \<Rightarrow> py_error + int" where
  "to_int (Fin x) = Inr (py_int x)"
| "to_int NaN = Inl ValueError"
| "to_int x = Inl OverflowError"

text \<open>
  Every arithmetic operation of the source returns the exact result rounded to the float
  type of that operation, which depends on the types of the operands and on the NumPy
  version; so the rounding is a parameter, indexed by the place of the operation in the
  source. The library calls are parameters too:
  \<^item> \<open>rnd\<close>, the rounding at an operation;
  \<^item> \<open>dot_acc\<close>, the sum inside \<^verbatim>\<open>np.dot\<close> of the two exact products of a 2-vector;
  \<^item> \<open>vec_norm\<close>, \<^verbatim>\<open>np.linalg.norm\<close> of a 2-vector;
  \<^item> \<open>arccos_deg\<close>, \<^verbatim>\<open>np.degrees(np.arccos(y))\<close> on a number from -1 to 1;
  \<^item> \<open>lit04\<close> and \<open>lit06\<close>, the literals 0.4 and 0.6 as the comparisons read them.
\<close>

datatype site =
  Limb_sub | Norm_mul | Cos_div
  | Hip_add | Hip_half | Ankle_sub | Center_sub | Span_sub | Ratio_div | Pct_mul | Comp_sub

record np_ops =
  rnd :: "site \<Rightarrow> npfloat \<Rightarrow> npfloat"
  dot_acc :: "npfloat \<Rightarrow> npfloat \<Rightarrow> npfloat"
  vec_norm :: "npfloat \<times> npfloat \<Rightarrow> npfloat"
  arccos_deg :: "real \<Rightarrow> real"
  lit04 :: real
  lit06 :: real

text \<open>
  The instance without rounding errors: exact arithmetic on the finite numbers.
\<close>

fun exact_norm :: "npfloat \<times> npfloat \<Rightarrow> npfloat" where
  "exact_norm (Fin x, Fin y) = Fin (sqrt (x\<^sup>2 + y\<^sup>2))"
| "exact_norm (NaN, y) = NaN"
| "exact_norm (x, NaN) = NaN"
| "exact_norm (x, y) = PInf"

definition np_exact :: np_ops where
  "np_exact =
     \<lparr>rnd = (\<lambda>s x. x), dot_acc = xadd, vec_norm = exact_norm,
      arccos_deg = (\<lambda>y. arccos y * 180 / pi), lit04 = 0.4, lit06 = 0.6\<rparr>"

text \<open>
  The instance that computes in binary64: rounding to nearest at every operation (below
  the overflow threshold), the literals as floats, the library calls as in \<open>np_exact\<close>.
  It is what NumPy does with keypoints given as Python floats.
\<close>

fun rnd64 :: "npfloat \<Rightarrow> npfloat" where
  "rnd64 (Fin x) = Fin (fl64 x)"
| "rnd64 x = x"

definition np_round64 :: np_ops where
  "np_round64 = np_exact\<lparr>rnd := (\<lambda>s. rnd64), lit04 := fl64 0.4, lit06 := fl64 0.6\<rparr>"

type_synonym point = "real \<times> real"

text \<open>
  \<^verbatim>\<open>PoseEngine.calculate_angle\<close> on three points with finite coordinates: the limb vectors
  \<^verbatim>\<open>a - b\<close> and \<^verbatim>\<open>c - b\<close>, their dot product, the product of their norms, the quotient,
  \<^verbatim>\<open>np.clip\<close>, \<^verbatim>\<open>np.degrees(np.arccos(...))\<close>, which keeps not-a-number, and \<^verbatim>\<open>int\<close>, which
  raises \<open>ValueError\<close> on not-a-number.
\<close>

definition limb :: "np_ops \<Rightarrow> point \<Rightarrow> point \<Rightarrow> npfloat \<times> npfloat" where
  "limb ops p q =
     (rnd ops Limb_sub (Fin (fst p - fst q)), rnd ops Limb_sub (Fin (snd p - snd q)))"

definition np_dot :: "np_ops \<Rightarrow> npfloat \<times> npfloat \<Rightarrow> npfloat \<times> npfloat \<Rightarrow> npfloat" where
  "np_dot ops u v = dot_acc ops (xmul (fst u) (fst v)) (xmul (snd u) (snd v))"

definition cosine :: "np_ops \<Rightarrow> point \<Rightarrow> point \<Rightarrow> point \<Rightarrow> npfloat" where
  "cosine ops a b c =
     (let ba = limb ops a b;
          bc = limb ops c b
      in rnd ops Cos_div
           (xdiv (np_dot ops ba bc)
                 (rnd ops Norm_mul (xmul (vec_norm ops ba) (vec_norm ops bc)))))"

fun np_arccos_deg :: "np_ops \<Rightarrow> npfloat \<Rightarrow> npfloat" where
  "np_arccos_deg ops (Fin y) = Fin (arccos_deg ops y)"
| "np_arccos_deg ops x = NaN"

definition calculate_angle :: "np_ops \<Rightarrow> point \<Rightarrow> point \<Rightarrow> point \<Rightarrow> py_error + int" where
  "calculate_angle ops a b c =
     (let cos = cosine ops a b c;
          angle = np_arccos_deg ops (np_clip cos (- 1) 1)
      in to_int angle)"


text \<open>Decimal rendering of an integer, as an f-string renders it.\<close>

definition digit_char :: "nat \<Rightarrow> char" where
  "digit_char d = ''0123456789'' ! d"

fun digits :: "nat \<Rightarrow> string" where
  "digits n =
     (if n < 10 then [digit_char n]
      else digits (n div 10) @ [digit_char (n mod 10)])"

declare digits.simps [simp del]

definition str_int :: "int \<Rightarrow> string" where
  "str_int i = (if i < 0 then ''-'' @ digits (nat (- i)) else digits (nat i))"



text \<open>
  \<^verbatim>\<open>kpts[i][:2][0]\<close>: the x coordinate of keypoint \<open>i\<close>; \<open>IndexError\<close> when the array has
  no row \<open>i\<close> or the row is empty.
\<close>

definition kpt_x :: "real list list \<Rightarrow> nat \<Rightarrow> py_error + real" where
  "kpt_x kpts i =
     (if i < length kpts
      then (case take 2 (kpts ! i) of [] \<Rightarrow> Inl IndexError | x # _ \<Rightarrow> Inr x)
      else Inl IndexError)"

text \<open>
  The values \<^verbatim>\<open>calculate_weight_transfer\<close> computes from the four x coordinates: the
  width between the feet, the clipped position ratio, and the two percentages before
  \<^verbatim>\<open>int\<close>.
\<close>

definition feet_width :: "np_ops \<Rightarrow> real \<Rightarrow> real \<Rightarrow> npfloat" where
  "feet_width ops l_ankle r_ankle = np_abs (rnd ops Ankle_sub (Fin (l_ankle - r_ankle)))"

definition pos_ratio :: "np_ops \<Rightarrow> real \<Rightarrow> real \<Rightarrow> real \<Rightarrow> real \<Rightarrow> npfloat" where
  "pos_ratio ops l_hip r_hip l_ankle r_ankle =
     (let hip_center_x = rnd ops Hip_half (xdiv (rnd ops Hip_add (Fin (l_hip + r_hip))) (Fin 2));
          min_x = min l_ankle r_ankle;
          max_x = max l_ankle r_ankle
      in np_clip
           (rnd ops Ratio_div
              (xdiv (rnd ops Center_sub (xsub hip_center_x (Fin min_x)))
                    (rnd ops Span_sub (Fin (max_x - min_x)))))
           0 1)"

definition front_pct :: "np_ops \<Rightarrow> npfloat \<Rightarrow> npfloat" where
  "front_pct ops r = rnd ops Pct_mul (xmul r (Fin 100))"

definition back_pct :: "np_ops \<Rightarrow> npfloat \<Rightarrow> npfloat" where
  "back_pct ops r = rnd ops Pct_mul (xmul (rnd ops Comp_sub (xsub (Fin 1) r)) (Fin 100))"

text \<open>
  The text chosen from the four x coordinates, after the keypoints have been read. An
  error of \<^verbatim>\<open>int\<close> is caught by the bare \<^verbatim>\<open>except\<close> of the method, as every error is.
\<close>

definition weight_text :: "np_ops \<Rightarrow> real \<Rightarrow> real \<Rightarrow> real \<Rightarrow> real \<Rightarrow> string" where
  "weight_text ops l_hip r_hip l_ankle r_ankle =
     (if np_lt (feet_width ops l_ankle r_ankle) (Fin 10) then ''Balanced''
      else
        (let r = pos_ratio ops l_hip r_hip l_ankle r_ankle
         in if np_lt (Fin (lit06 ops)) r
            then (case to_int (front_pct ops r) of
                    Inl _ \<Rightarrow> ''Neutral''
                  | Inr n \<Rightarrow> str_int n @ ''% Front'')
            else if np_lt r (Fin (lit04 ops))
            then (case to_int (back_pct ops r) of
                    Inl _ \<Rightarrow> ''Neutral''
                  | Inr n \<Rightarrow> str_int n @ ''% Back'')
            else ''Balanced''))"

text \<open>
  \<^verbatim>\<open>PoseEngine.calculate_weight_transfer\<close>: the bare \<^verbatim>\<open>except\<close> turns every error of the
  keypoint reads into \<^verbatim>\<open>"Neutral"\<close>.
\<close>

definition calculate_weight_transfer :: "np_ops \<Rightarrow> real list list \<Rightarrow> string" where
  "calculate_weight_transfer ops kpts =
     (case kpt_x kpts 11 of Inl _ \<Rightarrow> ''Neutral'' | Inr l_hip \<Rightarrow>
       (case kpt_x kpts 12 of Inl _ \<Rightarrow> ''Neutral'' | Inr r_hip \<Rightarrow>
         (case kpt_x kpts 15 of Inl _ \<Rightarrow> ''Neutral'' | Inr l_ankle \<Rightarrow>
           (case kpt_x kpts 16 of Inl _ \<Rightarrow> ''Neutral'' | Inr r_ankle \<Rightarrow>
              weight_text ops l_hip r_hip l_ankle r_ankle))))"




definition demo_kpts_134 :: "real list list" where
  "demo_kpts_134 =
     replicate 11 [0, 0] @ [[134, 0], [134, 0], [0, 0], [0, 0], [100, 0], [200, 0]]"

section \<open>Properties of the shot segmenter\<close>

lemma phase_Backlift: "(detect_phase e = ''Backlift'') = (150 < e)"
  by (simp add: detect_phase_def)

lemma phase_FollowThrough: "(detect_phase e = ''FollowThrough'') = (e \<le> 90)"
  by (simp add: detect_phase_def)

lemmas update_blocks =
  update_def Let_def start_shot_def buffer_frame_def end_shot_def active_id_def

lemma update_idle:
  assumes "current_shot s = None" "get0 (elbow pd) \<le> 150"
  shows "update s pd fid =
    (s, Inr \<lparr>id_r = shot_id s, phase_r = detect_phase (get0 (elbow pd)), started = False,
             ended = False, frames = None\<rparr>)"
  using assms by (simp add: update_blocks phase_Backlift)

lemma update_start:
  assumes "current_shot s = None" "150 < get0 (elbow pd)" "annotated pd = Some f"
  shows "update s pd fid =
    (s\<lparr>shot_id := shot_id s + 1,
       current_shot := Some \<lparr>id_s = shot_id s + 1, start_frame = fid\<rparr>,
       frame_buffer := deque_append (maxlen s) [] f\<rparr>,
     Inr \<lparr>id_r = shot_id s + 1, phase_r = ''Backlift'', started = True,
             ended = False, frames = None\<rparr>)"
  using assms by (simp add: update_blocks detect_phase_def)

lemma update_active_end:
  assumes "current_shot s = Some cs" "get0 (elbow pd) \<le> 90" "annotated pd = Some f"
  shows "update s pd fid =
    (s\<lparr>frame_buffer := [], current_shot := None\<rparr>,
     Inr \<lparr>id_r = id_s cs, phase_r = ''FollowThrough'', started = False,
             ended = True, frames = Some (deque_append (maxlen s) (frame_buffer s) f)\<rparr>)"
  using assms by (simp add: update_blocks detect_phase_def)

lemma update_active_cont:
  assumes "current_shot s = Some cs" "90 < get0 (elbow pd)" "annotated pd = Some f"
  shows "update s pd fid =
    (s\<lparr>frame_buffer := deque_append (maxlen s) (frame_buffer s) f\<rparr>,
     Inr \<lparr>id_r = id_s cs, phase_r = detect_phase (get0 (elbow pd)), started = False,
             ended = False, frames = None\<rparr>)"
  using assms by (simp add: update_blocks phase_Backlift phase_FollowThrough)

lemma update_raises:
  assumes "annotated pd = None" "current_shot s \<noteq> None \<or> 150 < get0 (elbow pd)"
  shows "snd (update s pd fid) = Inl AttributeError"
  using assms by (auto simp add: update_blocks phase_Backlift split: option.splits)

lemma update_returns:
  assumes "annotated pd = Some f"
  shows "\<exists>s' r. update s pd fid = (s', Inr r)"
proof (cases "current_shot s")
  case None
  show ?thesis
  proof (cases "150 < get0 (elbow pd)")
    case True
    with None assms show ?thesis by (simp add: update_start)
  next
    case False
    with None show ?thesis by (simp add: update_idle)
  qed
next
  case (Some cs)
  show ?thesis
  proof (cases "get0 (elbow pd) \<le> 90")
    case True
    with Some assms show ?thesis by (simp add: update_active_end)
  next
    case False
    with Some assms show ?thesis by (simp add: update_active_cont)
  qed
qed


lemma one_shot_then_idle_eq:
  "one_shot_then_idle =
     \<lparr>current_shot = None, shot_id = 1, frame_buffer = [], maxlen = Some 120\<rparr>"
  by (simp add: one_shot_then_idle_def init_segmenter_def frame_of_def update_blocks
      detect_phase_def get0_def deque_append_def)

lemma shot_in_progress_eq:
  "shot_in_progress =
     \<lparr>current_shot = Some \<lparr>id_s = 1, start_frame = 0\<rparr>, shot_id = 1, frame_buffer = [1, 2],
      maxlen = Some 120\<rparr>"
  by (simp add: shot_in_progress_def init_segmenter_def frame_of_def update_blocks
      detect_phase_def get0_def deque_append_def)

text \<open>
  Claim C4, as amended. When no shot is active and the phase is not Backlift (elbow at
  most 150), \<^verbatim>\<open>update\<close> returns normally, leaves the segmenter unchanged and reports
  \<open>started = False\<close>, \<open>ended = False\<close>, no frames, and as id the segmenter's shot counter
  \<open>shot_id\<close>: the id of the most recently started shot, which is 0 only as long as no
  shot has ever started.
\<close>

theorem update_idle_reports_shot_counter:
  assumes "current_shot s = None" and "get0 (elbow pd) \<le> 150"
  shows "update s pd fid =
    (s, Inr \<lparr>id_r = shot_id s, phase_r = detect_phase (get0 (elbow pd)), started = False,
             ended = False, frames = None\<rparr>)"
  using assms by (rule update_idle)

theorem update_idle_reports_shot_counter_witness:
  "update one_shot_then_idle (frame_of 100 3 :: (nat, unit) pose_data) 2 =
     (one_shot_then_idle,
      Inr \<lparr>id_r = shot_id one_shot_then_idle, phase_r = ''Contact'', started = False,
           ended = False, frames = None\<rparr>)"
  using update_idle_reports_shot_counter
          [of one_shot_then_idle "frame_of 100 3 :: (nat, unit) pose_data" 2]
  by (simp add: one_shot_then_idle_eq frame_of_def get0_def detect_phase_def)

text \<open>
  Claim C4 as stated fails: after one shot has started (elbow 160) and ended (elbow 80),
  no shot is active, and a frame with elbow 100 (phase Contact) is reported with id 1,
  not 0.
\<close>

theorem update_idle_id_counterexample:
  "current_shot one_shot_then_idle = None
   \<and> get0 (elbow (frame_of 100 3 :: (nat, unit) pose_data)) \<le> 150
   \<and> update one_shot_then_idle (frame_of 100 3 :: (nat, unit) pose_data) 2 =
       (one_shot_then_idle,
        Inr \<lparr>id_r = 1, phase_r = ''Contact'', started = False, ended = False, frames = None\<rparr>)"
  by (simp add: one_shot_then_idle_eq frame_of_def update_blocks detect_phase_def get0_def)

lemma update_frames_cases:
  assumes "update s pd fid = (s', Inr r)"
  shows "(frames r \<noteq> None) = (get0 (elbow pd) \<le> 90 \<and> current_shot s \<noteq> None)"
proof (cases "annotated pd")
  case None
  have "\<not> (current_shot s \<noteq> None \<or> 150 < get0 (elbow pd))"
  proof
    assume "current_shot s \<noteq> None \<or> 150 < get0 (elbow pd)"
    from update_raises [OF None this, of fid] assms show False by simp
  qed
  then have i: "current_shot s = None" "get0 (elbow pd) \<le> 150" by auto
  from update_idle [OF i, of fid] assms i show ?thesis by auto
next
  case (Some f)
  show ?thesis
  proof (cases "current_shot s")
    case None
    with Some assms show ?thesis
      by (cases "150 < get0 (elbow pd)") (auto simp add: update_idle update_start)
  next
    case (Some cs)
    with \<open>annotated pd = Some f\<close> assms show ?thesis
      by (cases "get0 (elbow pd) \<le> 90") (auto simp add: update_active_end update_active_cont)
  qed
qed

lemma update_end_effect:
  assumes "update s pd fid = (s', Inr r)" and "frames r \<noteq> None"
  shows "ended r \<and> (\<exists>f. annotated pd = Some f
            \<and> frames r = Some (deque_append (maxlen s) (frame_buffer s) f))
         \<and> current_shot s' = None \<and> frame_buffer s' = [] \<and> maxlen s' = maxlen s
         \<and> shot_id s' = shot_id s"
proof -
  from assms have e: "get0 (elbow pd) \<le> 90" and c: "current_shot s \<noteq> None"
    using update_frames_cases [OF assms(1)] by blast+
  from c obtain cs where cs: "current_shot s = Some cs" by auto
  have "annotated pd \<noteq> None"
  proof
    assume "annotated pd = None"
    from update_raises [OF this, of s fid] c assms(1) show False by simp
  qed
  then obtain f where f: "annotated pd = Some f" by auto
  from assms(1) show ?thesis
    by (auto simp add: update_active_end [OF cs e f] f)
qed

text \<open>
  Claim C6. Whenever the frame dictionary holds an annotated frame, \<^verbatim>\<open>update\<close> returns;
  and for every call that returns, from any segmenter state: \<open>frames\<close> is not \<open>None\<close> exactly
  when the phase is FollowThrough (elbow at most 90) and a shot is active; on such a call
  \<open>ended\<close> is true, the returned frames are the whole buffer with the current frame
  appended, and afterwards no shot is active and the buffer is empty, so that the next
  Backlift frame starts a new shot, with the next id, whose buffer holds that frame only.
\<close>

theorem frames_returned_exactly_when_shot_ends:
  "(annotated (pd :: ('f, 'g) pose_data) \<noteq> None \<longrightarrow> (\<exists>s' r. update s pd fid = (s', Inr r)))
   \<and> (\<forall>s' r. update s pd fid = (s', Inr r) \<longrightarrow>
        ((frames r \<noteq> None) =
           (detect_phase (get0 (elbow pd)) = ''FollowThrough'' \<and> current_shot s \<noteq> None))
        \<and> ((detect_phase (get0 (elbow pd)) = ''FollowThrough'') = (get0 (elbow pd) \<le> 90))
        \<and> (frames r \<noteq> None \<longrightarrow>
             ended r
             \<and> (\<exists>f. annotated pd = Some f
                   \<and> frames r = Some (deque_append (maxlen s) (frame_buffer s) f))
             \<and> current_shot s' = None \<and> frame_buffer s' = []
             \<and> (\<forall>(pd' :: ('f, 'g) pose_data) fid' f'.
                   150 < get0 (elbow pd') \<and> annotated pd' = Some f' \<longrightarrow>
                   update s' pd' fid' =
                     (s'\<lparr>shot_id := shot_id s' + 1,
                         current_shot := Some \<lparr>id_s = shot_id s' + 1, start_frame = fid'\<rparr>,
                         frame_buffer := deque_append (maxlen s') [] f'\<rparr>,
                      Inr \<lparr>id_r = shot_id s' + 1, phase_r = ''Backlift'', started = True,
                           ended = False, frames = None\<rparr>))))"
proof (intro conjI allI impI)
  assume "annotated pd \<noteq> None"
  then show "\<exists>s' r. update s pd fid = (s', Inr r)"
    using update_returns [of pd _ s fid] by auto
next
  fix s' r assume "update s pd fid = (s', Inr r)"
  then show "(frames r \<noteq> None) =
     (detect_phase (get0 (elbow pd)) = ''FollowThrough'' \<and> current_shot s \<noteq> None)"
    unfolding phase_FollowThrough by (rule update_frames_cases)
next
  show "(detect_phase (get0 (elbow pd)) = ''FollowThrough'') = (get0 (elbow pd) \<le> 90)"
    by (rule phase_FollowThrough)
next
  fix s' r assume "update s pd fid = (s', Inr r)" "frames r \<noteq> None"
  then show "ended r" using update_end_effect by blast
next
  fix s' r assume "update s pd fid = (s', Inr r)" "frames r \<noteq> None"
  then show "\<exists>f. annotated pd = Some f
      \<and> frames r = Some (deque_append (maxlen s) (frame_buffer s) f)"
    using update_end_effect by blast
next
  fix s' r assume "update s pd fid = (s', Inr r)" "frames r \<noteq> None"
  then show "current_shot s' = None" using update_end_effect by blast
next
  fix s' r assume "update s pd fid = (s', Inr r)" "frames r \<noteq> None"
  then show "frame_buffer s' = []" using update_end_effect by blast
next
  fix s' r fid' f' and pd' :: "('f, 'g) pose_data"
  assume u: "update s pd fid = (s', Inr r)" "frames r \<noteq> None"
    and b: "150 < get0 (elbow pd') \<and> annotated pd' = Some f'"
  from u have "current_shot s' = None" using update_end_effect by blast
  with b show "update s' pd' fid' =
      (s'\<lparr>shot_id := shot_id s' + 1,
          current_shot := Some \<lparr>id_s = shot_id s' + 1, start_frame = fid'\<rparr>,
          frame_buffer := deque_append (maxlen s') [] f'\<rparr>,
       Inr \<lparr>id_r = shot_id s' + 1, phase_r = ''Backlift'', started = True,
            ended = False, frames = None\<rparr>)"
    by (simp add: update_start)
qed

theorem frames_returned_exactly_when_shot_ends_witness:
  "update shot_in_progress (frame_of 80 3 :: (nat, unit) pose_data) 2 =
     (one_shot_then_idle,
      Inr \<lparr>id_r = 1, phase_r = ''FollowThrough'', started = False, ended = True,
           frames = Some [1, 2, 3]\<rparr>)
   \<and> current_shot shot_in_progress \<noteq> None
   \<and> update one_shot_then_idle (frame_of 160 4 :: (nat, unit) pose_data) 3 =
       (\<lparr>current_shot = Some \<lparr>id_s = 2, start_frame = 3\<rparr>, shot_id = 2, frame_buffer = [4],
         maxlen = Some 120\<rparr>,
        Inr \<lparr>id_r = 2, phase_r = ''Backlift'', started = True, ended = False, frames = None\<rparr>)"
  using frames_returned_exactly_when_shot_ends
          [of "frame_of 80 3 :: (nat, unit) pose_data" shot_in_progress 2]
  by (simp add: shot_in_progress_eq one_shot_then_idle_eq frame_of_def update_blocks
      detect_phase_def get0_def deque_append_def)

text \<open>
  Claim C9. An elbow angle of 0 is classified as FollowThrough. On the fallback dictionary
  of the pose engine (elbow 0) \<^verbatim>\<open>update\<close> always returns, no shot is active afterwards,
  and a shot that was active has ended with its buffer returned and cleared. More
  generally, for every elbow angle of at most 90 the phase is FollowThrough, the call
  returns whenever there is an annotated frame, and every call that returns leaves no
  shot active, ending and flushing a shot that was in progress.
\<close>

theorem lost_target_frame_ends_shot:
  "detect_phase 0 = ''FollowThrough''
   \<and> (\<exists>s' r. update s (process_fallback a g) fid = (s', Inr r) \<and> current_shot s' = None
        \<and> (current_shot s \<noteq> None \<longrightarrow>
             ended r \<and> frames r = Some (deque_append (maxlen s) (frame_buffer s) a)
             \<and> frame_buffer s' = []))
   \<and> (get0 (elbow pd) \<le> 90 \<longrightarrow>
        detect_phase (get0 (elbow pd)) = ''FollowThrough''
        \<and> (annotated pd \<noteq> None \<longrightarrow> (\<exists>s' r. update s pd fid = (s', Inr r)))
        \<and> (\<forall>s' r. update s pd fid = (s', Inr r) \<longrightarrow>
             current_shot s' = None
             \<and> (current_shot s \<noteq> None \<longrightarrow>
                  ended r \<and> frames r \<noteq> None \<and> frame_buffer s' = [])))"
proof (intro conjI impI allI)
  show "detect_phase 0 = ''FollowThrough''" by (simp add: detect_phase_def)
next
  have e: "get0 (elbow (process_fallback a g)) \<le> 90"
    and f: "annotated (process_fallback a g) = Some a"
    by (simp_all add: process_fallback_def get0_def)
  show "\<exists>s' r. update s (process_fallback a g) fid = (s', Inr r) \<and> current_shot s' = None
        \<and> (current_shot s \<noteq> None \<longrightarrow>
             ended r \<and> frames r = Some (deque_append (maxlen s) (frame_buffer s) a)
             \<and> frame_buffer s' = [])"
  proof (cases "current_shot s")
    case None
    with e show ?thesis by (simp add: update_idle)
  next
    case (Some cs)
    then show ?thesis by (simp add: update_active_end [OF Some e f])
  qed
next
  assume "get0 (elbow pd) \<le> 90"
  then show "detect_phase (get0 (elbow pd)) = ''FollowThrough''"
    by (simp add: phase_FollowThrough)
next
  assume "annotated pd \<noteq> None"
  then show "\<exists>s' r. update s pd fid = (s', Inr r)"
    using update_returns [of pd _ s fid] by auto
next
  fix s' r assume e: "get0 (elbow pd) \<le> 90" and u: "update s pd fid = (s', Inr r)"
  show "current_shot s' = None"
  proof (cases "current_shot s")
    case None
    with e u show ?thesis by (simp add: update_idle)
  next
    case (Some cs)
    with e u have "frames r \<noteq> None" using update_frames_cases [OF u] by simp
    with u show ?thesis using update_end_effect by blast
  qed
next
  fix s' r assume e: "get0 (elbow pd) \<le> 90" and u: "update s pd fid = (s', Inr r)"
    and c: "current_shot s \<noteq> None"
  then have fr: "frames r \<noteq> None" using update_frames_cases [OF u] by blast
  with u show "ended r" using update_end_effect by blast
  from fr show "frames r \<noteq> None" .
  from u fr show "frame_buffer s' = []" using update_end_effect by blast
qed

theorem lost_target_frame_ends_shot_witness:
  "update shot_in_progress (process_fallback 3 ()) 2 =
     (one_shot_then_idle,
      Inr \<lparr>id_r = 1, phase_r = ''FollowThrough'', started = False, ended = True,
           frames = Some [1, 2, 3]\<rparr>)
   \<and> current_shot shot_in_progress \<noteq> None"
  using lost_target_frame_ends_shot [of shot_in_progress 3 "()" 2 "process_fallback 3 ()"]
  by (simp add: shot_in_progress_eq one_shot_then_idle_eq process_fallback_def update_blocks
      detect_phase_def get0_def deque_append_def)

section \<open>Binary64 rounding at concrete values\<close>

lemma two_powr_diff:
  fixes n :: nat
  shows "(2::real) powr (of_int (k - int n)) = 2 powr (of_int k) / 2 ^ n"
proof -
  have "(of_int (k - int n) :: real) = of_int k - real n" by simp
  then have "(2::real) powr (of_int (k - int n)) = 2 powr (of_int k) / 2 powr (real n)"
    by (simp add: powr_diff)
  then show ?thesis by (simp add: powr_realpow)
qed

text \<open>
  A real whose magnitude times \<open>2\<^sup>n\<close> lies between \<open>2\<^sup>5\<^sup>2\<close> and \<open>2\<^sup>5\<^sup>3\<close> is rounded to a multiple
  of \<open>2\<^sup>-\<^sup>n\<close>.
\<close>

lemma fl64_scaled:
  fixes n :: nat
  assumes lo: "2 ^ 52 \<le> \<bar>x\<bar> * 2 ^ n" and hi: "\<bar>x\<bar> * 2 ^ n < 2 ^ 53" and n: "n \<le> 1074"
  shows "fl64 x = of_int (round_half_even (x * 2 ^ n)) / 2 ^ n"
proof -
  from lo have x0: "x \<noteq> 0" by auto
  then have ax: "0 < \<bar>x\<bar>" by simp
  have p: "(2::real) powr (of_int (52 - int n)) = 2 ^ 52 / 2 ^ n"
    using two_powr_diff [of 52 n] by simp
  have q: "(2::real) powr (of_int (53 - int n)) = 2 ^ 53 / 2 ^ n"
    using two_powr_diff [of 53 n] by simp
  have pos: "(0::real) < 2 ^ n" by simp
  from lo pos have "2 ^ 52 / 2 ^ n \<le> \<bar>x\<bar>" by (simp only: pos_divide_le_eq)
  then have a: "2 powr (of_int (52 - int n)) \<le> \<bar>x\<bar>"
    unfolding p .
  have s: "(52 - int n) + 1 = 53 - int n" by simp
  from hi pos have "\<bar>x\<bar> < 2 ^ 53 / 2 ^ n" by (simp only: pos_less_divide_eq)
  then have b: "\<bar>x\<bar> < 2 powr (of_int ((52 - int n) + 1))"
    unfolding s q .
  have "\<lfloor>log 2 \<bar>x\<bar>\<rfloor> = 52 - int n"
    using a b ax floor_log_eq_powr_iff [of "\<bar>x\<bar>" 2 "52 - int n"] by simp
  then have e: "max (\<lfloor>log 2 \<bar>x\<bar>\<rfloor> - 52) (- 1074) = - int n" using n by simp
  have r: "(2::real) powr of_int (- int n) = 1 / 2 ^ n"
    using two_powr_diff [of 0 n] by simp
  show ?thesis using x0 unfolding fl64_def Let_def e r by simp
qed

lemma fl64_zero: "fl64 0 = 0"
  by (simp add: fl64_def)

lemma fl64_lit_0025: "fl64 (0.0025) = 5764607523034235 / 2 ^ 61"
  by (subst fl64_scaled [where n = 61]) (simp_all add: round_half_even_def Let_def)

lemma fl64_lit_36: "fl64 (3.6) = 8106479329266893 / 2 ^ 51"
  by (subst fl64_scaled [where n = 51]) (simp_all add: round_half_even_def Let_def)

lemma fl64_lit_03: "fl64 (0.3) = 5404319552844595 / 2 ^ 54"
  by (subst fl64_scaled [where n = 54]) (simp_all add: round_half_even_def Let_def)

lemma fl64_lit_06: "fl64 (0.6) = 5404319552844595 / 2 ^ 53"
  by (subst fl64_scaled [where n = 53]) (simp_all add: round_half_even_def Let_def)

lemma fl64_lit_27: "fl64 (2.7) = 3039929748475085 / 2 ^ 50"
  by (subst fl64_scaled [where n = 51]) (simp_all add: round_half_even_def Let_def)

lemma fl64_lit_54: "fl64 (5.4) = 3039929748475085 / 2 ^ 49"
  by (subst fl64_scaled [where n = 50]) (simp_all add: round_half_even_def Let_def)

lemma fl64_lit_189: "fl64 (1.89) = 8511803295730237 / 2 ^ 52"
  by (subst fl64_scaled [where n = 52]) (simp_all add: round_half_even_def Let_def)

lemma fl64_lit_2943: "fl64 (2.943) = 6627046851675685 / 2 ^ 51"
  by (subst fl64_scaled [where n = 51]) (simp_all add: round_half_even_def Let_def)

lemma fl64_lit_294: "fl64 (2.94) = 6620291452234629 / 2 ^ 51"
  by (subst fl64_scaled [where n = 51]) (simp_all add: round_half_even_def Let_def)

lemma fl64_lit_649: "fl64 (64.9) = 2283465748565197 / 2 ^ 45"
  by (subst fl64_scaled [where n = 46]) (simp_all add: round_half_even_def Let_def)

lemma fl64_lit_3894: "fl64 (38.94) = 685039724569559 / 2 ^ 44"
  by (subst fl64_scaled [where n = 47]) (simp_all add: round_half_even_def Let_def)

lemma fl64_int_10: "fl64 10 = 10"
  by (subst fl64_scaled [where n = 49]) (simp_all add: round_half_even_def Let_def)

lemma fl64_int_20: "fl64 20 = 20"
  by (subst fl64_scaled [where n = 48]) (simp_all add: round_half_even_def Let_def)

lemma fl64_int_50: "fl64 50 = 50"
  by (subst fl64_scaled [where n = 47]) (simp_all add: round_half_even_def Let_def)

lemma fl64_mul_10_mpp: "fl64 (10 * (5764607523034235 / 2 ^ 61)) = 3602879701896397 / 2 ^ 57"
  by (subst fl64_scaled [where n = 58]) (simp_all add: round_half_even_def Let_def)

lemma fl64_mul_p1_30: "fl64 ((3602879701896397 / 2 ^ 57) * 30) = 3 / 4"
  by (subst fl64_scaled [where n = 53]) (simp_all add: round_half_even_def Let_def)

lemma fl64_mul_p2_c36: "fl64 ((3 / 4) * (8106479329266893 / 2 ^ 51)) = 3039929748475085 / 2 ^ 50"
  by (subst fl64_scaled [where n = 51]) (simp_all add: round_half_even_def Let_def)

lemma fl64_mul_20_mpp: "fl64 (20 * (5764607523034235 / 2 ^ 61)) = 3602879701896397 / 2 ^ 56"
  by (subst fl64_scaled [where n = 57]) (simp_all add: round_half_even_def Let_def)

lemma fl64_mul_q1_30: "fl64 ((3602879701896397 / 2 ^ 56) * 30) = 3 / 2"
  by (subst fl64_scaled [where n = 52]) (simp_all add: round_half_even_def Let_def)

lemma fl64_mul_q2_c36: "fl64 ((3 / 2) * (8106479329266893 / 2 ^ 51)) = 3039929748475085 / 2 ^ 49"
  by (subst fl64_scaled [where n = 50]) (simp_all add: round_half_even_def Let_def)

lemma fl64_one_minus_alpha: "fl64 (1 - 5404319552844595 / 2 ^ 54) = 3152519739159347 / 2 ^ 52"
  by (subst fl64_scaled [where n = 53]) (simp_all add: round_half_even_def Let_def)

lemma fl64_mul_om_r2: "fl64 ((3152519739159347 / 2 ^ 52) * (3039929748475085 / 2 ^ 50)) = 8511803295730237 / 2 ^ 52"
  by (subst fl64_scaled [where n = 52]) (simp_all add: round_half_even_def Let_def)

lemma fl64_add_0_t3: "fl64 (0 + 8511803295730237 / 2 ^ 52) = 8511803295730237 / 2 ^ 52"
  by (subst fl64_scaled [where n = 52]) (simp_all add: round_half_even_def Let_def)

lemma fl64_mul_a_r4: "fl64 ((5404319552844595 / 2 ^ 54) * (3039929748475085 / 2 ^ 49)) = 1823957849085051 / 2 ^ 50"
  by (subst fl64_scaled [where n = 52]) (simp_all add: round_half_even_def Let_def)

lemma fl64_mul_om_e3: "fl64 ((3152519739159347 / 2 ^ 52) * (8511803295730237 / 2 ^ 52)) = 2979131153505583 / 2 ^ 51"
  by (subst fl64_scaled [where n = 52]) (simp_all add: round_half_even_def Let_def)

lemma fl64_add_s4_t4: "fl64 (1823957849085051 / 2 ^ 50 + 2979131153505583 / 2 ^ 51) = 6627046851675685 / 2 ^ 51"
  by (subst fl64_scaled [where n = 51]) (simp_all add: round_half_even_def Let_def)

lemma fl64_r2_100: "fl64 ((3039929748475085 / 2 ^ 50) * 100) = 270"
  by (subst fl64_scaled [where n = 44]) (simp_all add: round_half_even_def Let_def)

lemma fl64_e3_100: "fl64 ((8511803295730237 / 2 ^ 52) * 100) = 189"
  by (subst fl64_scaled [where n = 45]) (simp_all add: round_half_even_def Let_def)

lemma fl64_e4_100: "fl64 ((6627046851675685 / 2 ^ 51) * 100) = 5177380352871629 / 2 ^ 44"
  by (subst fl64_scaled [where n = 44]) (simp_all add: round_half_even_def Let_def)

lemma fl64_div_270_100: "fl64 (270 / 100) = 3039929748475085 / 2 ^ 50"
  by (subst fl64_scaled [where n = 51]) (simp_all add: round_half_even_def Let_def)

lemma fl64_div_189_100: "fl64 (189 / 100) = 8511803295730237 / 2 ^ 52"
  by (subst fl64_scaled [where n = 52]) (simp_all add: round_half_even_def Let_def)

lemma fl64_div_294_100: "fl64 (294 / 100) = 6620291452234629 / 2 ^ 51"
  by (subst fl64_scaled [where n = 51]) (simp_all add: round_half_even_def Let_def)

lemma fl64_mul_50_mpp: "fl64 (50 * (5764607523034235 / 2 ^ 61)) = 1 / 8"
  by (subst fl64_scaled [where n = 55]) (simp_all add: round_half_even_def Let_def)

lemma fl64_mul_b1_30: "fl64 ((1 / 8) * 30) = 15 / 4"
  by (subst fl64_scaled [where n = 51]) (simp_all add: round_half_even_def Let_def)

lemma fl64_mul_b2_c36: "fl64 ((15 / 4) * (8106479329266893 / 2 ^ 51)) = 27 / 2"
  by (subst fl64_scaled [where n = 49]) (simp_all add: round_half_even_def Let_def)

lemma fl64_27_2_plus_0: "fl64 (27 / 2 + 0) = 27 / 2"
  by (subst fl64_scaled [where n = 49]) (simp_all add: round_half_even_def Let_def)

lemma fl64_27_2_div_1: "fl64 (27 / 2 / 1) = 27 / 2"
  by (subst fl64_scaled [where n = 49]) (simp_all add: round_half_even_def Let_def)

lemma fl64_27_2_100: "fl64 (27 / 2 * 100) = 1350"
  by (subst fl64_scaled [where n = 42]) (simp_all add: round_half_even_def Let_def)

lemma fl64_div_1350_100: "fl64 (1350 / 100) = 27 / 2"
  by (subst fl64_scaled [where n = 49]) (simp_all add: round_half_even_def Let_def)

lemma fl64_mul_649_06: "fl64 ((2283465748565197 / 2 ^ 45) * (5404319552844595 / 2 ^ 53)) = 5480317796556473 / 2 ^ 47"
  by (subst fl64_scaled [where n = 47]) (simp_all add: round_half_even_def Let_def)

lemma ieee64_fields:
  "fl ieee64 = fl64" "linalg_norm ieee64 = linalg_norm64" "np_mean ieee64 = mean64"
  "round2 ieee64 = round2_64"
  by (simp_all add: ieee64_def)

lemma sqrt_100: "sqrt 100 = 10"
  by (rule real_sqrt_unique) simp_all

lemma sqrt_400: "sqrt 400 = 20"
  by (rule real_sqrt_unique) simp_all

lemma sqrt_2500: "sqrt 2500 = 50"
  by (rule real_sqrt_unique) simp_all

lemma norm64_values:
  "linalg_norm64 (px_diff (10, 0) (0, 0)) = 10"
  "linalg_norm64 (px_diff (10, 0) (10, 0)) = 0"
  "linalg_norm64 (px_diff (30, 0) (10, 0)) = 20"
  "linalg_norm64 (px_diff (42, 52) (12, 12)) = 50"
  by (simp_all add: linalg_norm64_def px_diff_def wrap64_def sqrt_100 sqrt_400 sqrt_2500
      fl64_int_10 fl64_int_20 fl64_int_50 fl64_zero)

lemma kmh64_10: "fl64 (fl64 (fl64 (10 * fl64 0.0025) * 30) * fl64 3.6) = fl64 2.7"
  by (simp only: fl64_lit_0025 fl64_mul_10_mpp fl64_mul_p1_30 fl64_lit_36 fl64_mul_p2_c36
      fl64_lit_27)

lemma kmh64_0: "fl64 (fl64 (fl64 (0 * fl64 0.0025) * 30) * fl64 3.6) = 0"
  by (simp only: mult_zero_left fl64_zero)

lemma kmh64_20: "fl64 (fl64 (fl64 (20 * fl64 0.0025) * 30) * fl64 3.6) = fl64 5.4"
  by (simp only: fl64_lit_0025 fl64_mul_20_mpp fl64_mul_q1_30 fl64_lit_36 fl64_mul_q2_c36
      fl64_lit_54)

lemma kmh64_50: "fl64 (fl64 (fl64 (50 * fl64 0.0025) * 30) * fl64 3.6) = 27 / 2"
  by (simp only: fl64_lit_0025 fl64_mul_50_mpp fl64_mul_b1_30 fl64_lit_36 fl64_mul_b2_c36)

lemma ema64_3:
  "fl64 (fl64 (fl64 0.3 * 0) + fl64 (fl64 (1 - fl64 0.3) * fl64 2.7)) = fl64 1.89"
  by (simp only: fl64_lit_03 fl64_lit_27 mult_zero_right fl64_zero fl64_one_minus_alpha
      fl64_mul_om_r2 fl64_add_0_t3 fl64_lit_189)

lemma ema64_4:
  "fl64 (fl64 (fl64 0.3 * fl64 5.4) + fl64 (fl64 (1 - fl64 0.3) * fl64 1.89)) = fl64 2.943"
  by (simp only: fl64_lit_03 fl64_lit_54 fl64_lit_189 fl64_one_minus_alpha fl64_mul_a_r4
      fl64_mul_om_e3 fl64_add_s4_t4 fl64_lit_2943)

lemma rhe_values:
  "round_half_even 270 = 270" "round_half_even 189 = 189"
  "round_half_even (5177380352871629 / 2 ^ 44) = 294" "round_half_even 1350 = 1350"
  by (simp_all add: round_half_even_def Let_def)

lemma round64_values:
  "round2_64 (fl64 2.7) = fl64 2.7" "round2_64 (fl64 1.89) = fl64 1.89"
  "round2_64 (fl64 2.943) = fl64 2.94" "round2_64 (27 / 2) = 27 / 2"
  unfolding round2_64_def
  by (simp_all only: fl64_lit_27 fl64_r2_100 fl64_lit_189 fl64_e3_100 fl64_lit_2943
      fl64_e4_100 fl64_lit_294 rhe_values of_int_numeral fl64_div_270_100 fl64_div_189_100
      fl64_div_294_100 fl64_27_2_100 fl64_div_1350_100)

lemma fl64_lit_405: "fl64 (4.05) = 4559894622712627 / 2 ^ 50"
  by (subst fl64_scaled [where n = 50]) (simp_all add: round_half_even_def Let_def)

lemma fl64_lit_121: "fl64 (1.21) = 1362338887279575 / 2 ^ 50"
  by (subst fl64_scaled [where n = 52]) (simp_all add: round_half_even_def Let_def)

lemma fl64_int_15: "fl64 15 = 15"
  by (subst fl64_scaled [where n = 49]) (simp_all add: round_half_even_def Let_def)

lemma fl64_mul_15_mpp: "fl64 (15 * (5764607523034235 / 2 ^ 61)) = 5404319552844595 / 2 ^ 57"
  by (subst fl64_scaled [where n = 57]) (simp_all add: round_half_even_def Let_def)

lemma fl64_mul_u1_30: "fl64 ((5404319552844595 / 2 ^ 57) * 30) = 9 / 8"
  by (subst fl64_scaled [where n = 52]) (simp_all add: round_half_even_def Let_def)

lemma fl64_mul_u2_c36: "fl64 ((9 / 8) * (8106479329266893 / 2 ^ 51)) = 4559894622712627 / 2 ^ 50"
  by (subst fl64_scaled [where n = 50]) (simp_all add: round_half_even_def Let_def)

lemma fl64_mul_a_u3: "fl64 ((5404319552844595 / 2 ^ 54) * (4559894622712627 / 2 ^ 50)) = 341992096703447 / 2 ^ 48"
  by (subst fl64_scaled [where n = 52]) (simp_all add: round_half_even_def Let_def)

lemma fl64_add_w1_0: "fl64 (341992096703447 / 2 ^ 48 + 0) = 341992096703447 / 2 ^ 48"
  by (subst fl64_scaled [where n = 52]) (simp_all add: round_half_even_def Let_def)

lemma fl64_w2_100: "fl64 ((341992096703447 / 2 ^ 48) * 100) = 8549802417586175 / 2 ^ 46"
  by (subst fl64_scaled [where n = 46]) (simp_all add: round_half_even_def Let_def)

lemma fl64_div_121_100: "fl64 (121 / 100) = 1362338887279575 / 2 ^ 50"
  by (subst fl64_scaled [where n = 52]) (simp_all add: round_half_even_def Let_def)

lemma fl64_w_268: "fl64 268 = 268"
  by (subst fl64_scaled [where n = 44]) (simp_all add: round_half_even_def Let_def)

lemma fl64_w_134: "fl64 134 = 134"
  by (subst fl64_scaled [where n = 45]) (simp_all add: round_half_even_def Let_def)

lemma fl64_w_m100: "fl64 (- 100) = (- 100)"
  by (subst fl64_scaled [where n = 46]) (simp_all add: round_half_even_def Let_def)

lemma fl64_w_34: "fl64 34 = 34"
  by (subst fl64_scaled [where n = 47]) (simp_all add: round_half_even_def Let_def)

lemma fl64_w_100: "fl64 100 = 100"
  by (subst fl64_scaled [where n = 46]) (simp_all add: round_half_even_def Let_def)

lemma fl64_w_ratio: "fl64 (17 / 50) = 6124895493223875 / 18014398509481984"
  by (subst fl64_scaled [where n = 54]) (simp_all add: round_half_even_def Let_def)

lemma fl64_w_lit06: "fl64 (3 / 5) = 5404319552844595 / 9007199254740992"
  by (subst fl64_scaled [where n = 53]) (simp_all add: round_half_even_def Let_def)

lemma fl64_w_lit04: "fl64 (2 / 5) = 3602879701896397 / 9007199254740992"
  by (subst fl64_scaled [where n = 54]) (simp_all add: round_half_even_def Let_def)

lemma fl64_w_comp: "fl64 (11889503016258109 / 18014398509481984) = 2972375754064527 / 4503599627370496"
  by (subst fl64_scaled [where n = 53]) (simp_all add: round_half_even_def Let_def)

lemma fl64_w_pct: "fl64 (74309393851613175 / 1125899906842624) = 4644337115725823 / 70368744177664"
  by (subst fl64_scaled [where n = 46]) (simp_all add: round_half_even_def Let_def)

section \<open>Properties of the coach\<close>

lemmas feedback_texts =
  feedback_power_def feedback_elbow_def feedback_knee_def feedback_forearm_def
  feedback_contact_def feedback_excellent_def feedback_default_def

lemma evaluate_first_match:
  "evaluate ops self pd sd = first_match (coach_rules_spec ops self pd sd) feedback_default"
  by (simp add: evaluate_def coach_rules_spec_def measured_below_def Let_def mult.commute)

lemma evaluate_power:
  assumes "get0 (bat_speed sd) \<noteq> 0" and "get0 (bat_speed sd) < MIN_BAT_SPEED self"
  shows "evaluate ops self pd sd = feedback_power"
  using assms by (simp add: evaluate_def Let_def)

lemma feedback_power_elbow: "feedback_power \<noteq> feedback_elbow"
  by (simp add: feedback_texts)

lemma evaluate_zero_bat:
  assumes "get0 (bat_speed sd) = 0"
  shows "evaluate ops self pd sd \<noteq> feedback_power"
  using assms by (simp add: evaluate_def Let_def feedback_texts)

lemma evaluate_zero_elbow:
  assumes "get0 (elbow pd) = 0"
  shows "evaluate ops self pd sd \<noteq> feedback_elbow"
  using assms by (simp add: evaluate_def Let_def feedback_texts)

lemma evaluate_zero_knee:
  assumes "get0 (knee pd) = 0"
  shows "evaluate ops self pd sd \<noteq> feedback_knee"
  using assms by (simp add: evaluate_def Let_def feedback_texts)

lemma evaluate_zero_arm:
  assumes "get0 (arm_speed sd) = 0"
  shows "evaluate ops self pd sd \<noteq> feedback_forearm"
  using assms by (simp add: evaluate_def Let_def feedback_texts)

lemma evaluate_zero_ball:
  assumes "get0 (ball_speed sd) = 0"
  shows "evaluate ops self pd sd \<noteq> feedback_contact"
  using assms by (simp add: evaluate_def Let_def feedback_texts)

text \<open>
  The float product decides the forearm rule: the float 38.94 is below the float product
  of 64.9 and 0.6, which is above the exact product.
\<close>

lemma evaluate_float_product:
  "evaluate ieee64 init_coach (fst arm_at_rounded_ratio) (snd arm_at_rounded_ratio) =
     feedback_forearm"
proof -
  have lt: "fl64 38.94 < fl64 (fl64 64.9 * fl64 0.6)"
    by (simp only: fl64_lit_3894 fl64_lit_649 fl64_lit_06 fl64_mul_649_06) simp
  have b: "fl64 64.9 = 2283465748565197 / 2 ^ 45" by (rule fl64_lit_649)
  have a: "fl64 38.94 = 685039724569559 / 2 ^ 44" by (rule fl64_lit_3894)
  have b0: "fl64 64.9 \<noteq> 0" "\<not> fl64 64.9 < 60" unfolding b by simp_all
  have a0: "fl64 38.94 \<noteq> 0" unfolding a by simp
  show ?thesis
    using lt b0 a0
    by (simp add: evaluate_def Let_def arm_at_rounded_ratio_def get0_def init_coach_def
        ieee64_fields)
qed

text \<open>
  Claim C5. Whatever the float arithmetic, \<^verbatim>\<open>Coach.evaluate\<close> is the first-match evaluation
  of the ordered rule table of the specification, each numeric guard being skipped on a
  zero input. With the default thresholds, bat speed 50 and elbow 100 give the bat-speed
  (power) message, never the elbow message, whatever the other inputs. A bat speed of 0
  never gives the bat-speed message, and likewise a zero elbow, knee, arm speed or ball
  speed never gives the message of its own rule.
\<close>

theorem coach_priority_and_zero_guards:
  "evaluate ops self pd sd = first_match (coach_rules_spec ops self pd sd) feedback_default
   \<and> (get0 (bat_speed sd) = 50 \<and> get0 (elbow pd) = 100 \<longrightarrow>
        evaluate ops init_coach pd sd = feedback_power
        \<and> evaluate ops init_coach pd sd \<noteq> feedback_elbow)
   \<and> (get0 (bat_speed sd) = 0 \<longrightarrow> evaluate ops self pd sd \<noteq> feedback_power)
   \<and> (get0 (elbow pd) = 0 \<longrightarrow> evaluate ops self pd sd \<noteq> feedback_elbow)
   \<and> (get0 (knee pd) = 0 \<longrightarrow> evaluate ops self pd sd \<noteq> feedback_knee)
   \<and> (get0 (arm_speed sd) = 0 \<longrightarrow> evaluate ops self pd sd \<noteq> feedback_forearm)
   \<and> (get0 (ball_speed sd) = 0 \<longrightarrow> evaluate ops self pd sd \<noteq> feedback_contact)"
proof (intro conjI impI)
  show "evaluate ops self pd sd = first_match (coach_rules_spec ops self pd sd) feedback_default"
    by (rule evaluate_first_match)
next
  assume a: "get0 (bat_speed sd) = 50 \<and> get0 (elbow pd) = 100"
  then show p: "evaluate ops init_coach pd sd = feedback_power"
    by (simp add: evaluate_power init_coach_def)
  then show "evaluate ops init_coach pd sd \<noteq> feedback_elbow"
    by (simp add: feedback_power_elbow)
qed (simp_all add: evaluate_zero_bat evaluate_zero_elbow evaluate_zero_knee evaluate_zero_arm
      evaluate_zero_ball)

theorem coach_priority_and_zero_guards_witness:
  "evaluate ieee64 init_coach (fst slow_bat_bent_elbow) (snd slow_bat_bent_elbow)
     = feedback_power
   \<and> get0 (bat_speed (snd slow_bat_bent_elbow)) = 50
   \<and> get0 (elbow (fst slow_bat_bent_elbow)) = 100
   \<and> get0 (bat_speed (snd no_bat_bent_elbow)) = 0
   \<and> evaluate ieee64 init_coach (fst no_bat_bent_elbow) (snd no_bat_bent_elbow)
       \<noteq> feedback_power
   \<and> first_match
        (coach_rules_spec ieee64 init_coach (fst arm_at_rounded_ratio)
           (snd arm_at_rounded_ratio)) feedback_default = feedback_forearm"
proof -
  have h: "get0 (bat_speed (snd slow_bat_bent_elbow)) = 50
           \<and> get0 (elbow (fst slow_bat_bent_elbow)) = 100"
    by (simp add: slow_bat_bent_elbow_def get0_def)
  have z: "get0 (bat_speed (snd no_bat_bent_elbow)) = 0"
    by (simp add: no_bat_bent_elbow_def get0_def)
  from coach_priority_and_zero_guards
         [of ieee64 init_coach "fst slow_bat_bent_elbow" "snd slow_bat_bent_elbow"] h
  have a: "evaluate ieee64 init_coach (fst slow_bat_bent_elbow) (snd slow_bat_bent_elbow)
           = feedback_power"
    by blast
  from coach_priority_and_zero_guards
         [of ieee64 init_coach "fst no_bat_bent_elbow" "snd no_bat_bent_elbow"] z
  have b: "evaluate ieee64 init_coach (fst no_bat_bent_elbow) (snd no_bat_bent_elbow)
           \<noteq> feedback_power"
    by blast
  from coach_priority_and_zero_guards
         [of ieee64 init_coach "fst arm_at_rounded_ratio" "snd arm_at_rounded_ratio"]
  have "first_match
        (coach_rules_spec ieee64 init_coach (fst arm_at_rounded_ratio)
           (snd arm_at_rounded_ratio)) feedback_default
        = evaluate ieee64 init_coach (fst arm_at_rounded_ratio) (snd arm_at_rounded_ratio)"
    by simp
  then have c: "first_match
        (coach_rules_spec ieee64 init_coach (fst arm_at_rounded_ratio)
           (snd arm_at_rounded_ratio)) feedback_default = feedback_forearm"
    by (simp only: evaluate_float_product)
  from a b c h z show ?thesis by simp
qed

section \<open>Properties of the speed estimator\<close>

lemma bat_speed_None:
  "SpeedEstimator_bat_speed ops self None = (self\<lparr>prev_wrist := None\<rparr>, 0)"
  by (simp add: SpeedEstimator_bat_speed_def)

lemma bat_speed_seed:
  assumes "prev_wrist self = None"
  shows "SpeedEstimator_bat_speed ops self (Some w) = (self\<lparr>prev_wrist := Some w\<rparr>, 0)"
  using assms by (simp add: SpeedEstimator_bat_speed_def)

lemma calibrated_init: "calibrated ops f (init_speed_estimator ops f)"
  by (simp add: calibrated_def init_speed_estimator_def)

lemma calibrated_step:
  "calibrated ops f self \<Longrightarrow> calibrated ops f (fst (SpeedEstimator_bat_speed ops self w))"
  by (auto simp add: calibrated_def SpeedEstimator_bat_speed_def Let_def
      split: option.splits)

lemma bat_speed_raw:
  assumes "calibrated ops f self" and "prev_wrist self = Some p" and "bat_ema self = None"
  shows "SpeedEstimator_bat_speed ops self (Some w) =
    (self\<lparr>prev_wrist := Some w, bat_ema := Some (raw_speed_spec ops f p w)\<rparr>,
     reported_spec ops (raw_speed_spec ops f p w))"
  using assms
  by (simp add: calibrated_def SpeedEstimator_bat_speed_def speed_kmh_def raw_speed_spec_def
      reported_spec_def Let_def)

lemma bat_speed_ema:
  assumes "calibrated ops f self" and "prev_wrist self = Some p" and "bat_ema self = Some e"
  shows "SpeedEstimator_bat_speed ops self (Some w) =
    (self\<lparr>prev_wrist := Some w,
          bat_ema := Some (ema_step_spec ops e (raw_speed_spec ops f p w))\<rparr>,
     reported_spec ops (ema_step_spec ops e (raw_speed_spec ops f p w)))"
  using assms
  by (simp add: calibrated_def SpeedEstimator_bat_speed_def speed_kmh_def raw_speed_spec_def
      ema_step_spec_def reported_spec_def Let_def)

lemma bat_speeds_spec:
  assumes "calibrated ops f self"
  shows "bat_speeds ops self ws = bat_spec ops f (prev_wrist self) (bat_ema self) ws"
  using assms
proof (induction ws arbitrary: self)
  case Nil
  show ?case by simp
next
  case (Cons w ws)
  let ?self' = "fst (SpeedEstimator_bat_speed ops self w)"
  have c: "calibrated ops f ?self'" using Cons.prems by (rule calibrated_step)
  have ih: "bat_speeds ops ?self' ws = bat_spec ops f (prev_wrist ?self') (bat_ema ?self') ws"
    using c by (rule Cons.IH)
  show ?case
  proof (cases w)
    case None
    then show ?thesis using ih by (simp add: bat_speed_None)
  next
    case (Some wp)
    show ?thesis
    proof (cases "prev_wrist self")
      case None
      then show ?thesis using ih Some by (simp add: bat_speed_seed)
    next
      case p: (Some p)
      show ?thesis
      proof (cases "bat_ema self")
        case None
        from bat_speed_raw [OF Cons.prems p None, of wp] ih Some p None
        show ?thesis by simp
      next
        case e: (Some e)
        from bat_speed_ema [OF Cons.prems p e, of wp] ih Some p e
        show ?thesis by simp
      qed
    qed
  qed
qed

lemma bat_spec_gap_free:
  "bat_spec ops f (Some p) (Some e) (map Some ws) =
     map (reported_spec ops) (ema_spec ops e (raw_speeds_spec ops f p ws))"
  by (induction ws arbitrary: p e) simp_all

lemma bat_spec_fresh_gap_free:
  "bat_spec ops f None None (map Some (w0 # w1 # ws)) =
     0 # reported_spec ops (raw_speed_spec ops f w0 w1)
       # map (reported_spec ops)
           (ema_spec ops (raw_speed_spec ops f w0 w1) (raw_speeds_spec ops f w1 ws))"
  by (simp add: bat_spec_gap_free)

lemma bat_speeds_fresh:
  "bat_speeds ops (init_speed_estimator ops f) ws = bat_spec ops f None None ws"
  using bat_speeds_spec [OF calibrated_init, of ops f ws]
  by (simp add: init_speed_estimator_def)

lemma raw64_example:
  "raw_speed_spec ieee64 30 (0, 0) (10, 0) = fl64 2.7"
  "raw_speed_spec ieee64 30 (10, 0) (10, 0) = 0"
  "raw_speed_spec ieee64 30 (10, 0) (30, 0) = fl64 5.4"
  unfolding raw_speed_spec_def ieee64_fields norm64_values
  by (rule kmh64_10, rule kmh64_0, rule kmh64_20)

lemma ema64_example:
  "ema_step_spec ieee64 (fl64 2.7) 0 = fl64 1.89"
  "ema_step_spec ieee64 (fl64 1.89) (fl64 5.4) = fl64 2.943"
  unfolding ema_step_spec_def ieee64_fields
  by (rule ema64_3, rule ema64_4)

lemma fl64_27_pos: "fl64 2.7 \<le> 160" "fl64 1.89 \<le> 160" "fl64 2.943 \<le> 160"
  unfolding fl64_lit_27 fl64_lit_189 fl64_lit_2943 by simp_all

lemma reported64_example:
  "reported_spec ieee64 (fl64 2.7) = fl64 2.7"
  "reported_spec ieee64 (fl64 1.89) = fl64 1.89"
  "reported_spec ieee64 (fl64 2.943) = fl64 2.94"
  unfolding reported_spec_def ieee64_fields
  by (simp_all only: min_absorb1 fl64_27_pos round64_values)

lemma ieee64_py_fields:
  "fl ieee64_py = fl64" "linalg_norm ieee64_py = linalg_norm64" "np_mean ieee64_py = mean64"
  "round2 ieee64_py = round2_py"
  by (simp_all add: ieee64_py_def ieee64_def)

lemma spec_round2_irrelevant:
  "raw_speed_spec ieee64_py f p w = raw_speed_spec ieee64 f p w"
  "ema_step_spec ieee64_py e r = ema_step_spec ieee64 e r"
  by (simp_all add: raw_speed_spec_def ema_step_spec_def ieee64_py_fields ieee64_fields)

lemma rhe_py_values:
  "round_half_even (3039929748475085 / 2 ^ 50 * 100) = 270"
  "round_half_even (8511803295730237 / 2 ^ 52 * 100) = 189"
  "round_half_even (6627046851675685 / 2 ^ 51 * 100) = 294"
  by (simp_all add: round_half_even_def Let_def)

lemma round_py_values:
  "round2_py (fl64 2.7) = fl64 2.7" "round2_py (fl64 1.89) = fl64 1.89"
  "round2_py (fl64 2.943) = fl64 2.94"
  unfolding round2_py_def
  by (simp_all only: fl64_lit_27 fl64_lit_189 fl64_lit_2943 fl64_lit_294 rhe_py_values
      of_int_numeral fl64_div_270_100 fl64_div_189_100 fl64_div_294_100)

lemma reported_py_example:
  "reported_spec ieee64_py (fl64 2.7) = fl64 2.7"
  "reported_spec ieee64_py (fl64 1.89) = fl64 1.89"
  "reported_spec ieee64_py (fl64 2.943) = fl64 2.94"
  unfolding reported_spec_def ieee64_py_fields
  by (simp_all only: min_absorb1 fl64_27_pos round_py_values)

lemma fl64_near:
  "\<bar>fl64 2.7 - 2.7\<bar> < 1 / 10 ^ 15" "\<bar>fl64 1.89 - 1.89\<bar> < 1 / 10 ^ 15"
  "\<bar>fl64 2.94 - 2.94\<bar> < 1 / 10 ^ 15" "\<bar>fl64 5.4 - 5.4\<bar> < 1 / 10 ^ 15"
  "\<bar>fl64 2.943 - 2.943\<bar> < 1 / 10 ^ 15"
  unfolding fl64_lit_27 fl64_lit_189 fl64_lit_294 fl64_lit_54 fl64_lit_2943 by simp_all


lemma norm64_values2:
  "linalg_norm64 (px_diff (0, 0) (0, 0)) = 0"
  "linalg_norm64 (px_diff (15, 0) (0, 0)) = 15"
proof -
  have "sqrt 225 = 15" by (rule real_sqrt_unique) simp_all
  then show "linalg_norm64 (px_diff (15, 0) (0, 0)) = 15"
    by (simp add: linalg_norm64_def px_diff_def wrap64_def fl64_int_15)
  show "linalg_norm64 (px_diff (0, 0) (0, 0)) = 0"
    by (simp add: linalg_norm64_def px_diff_def wrap64_def fl64_zero)
qed

lemma kmh64_15: "fl64 (fl64 (fl64 (15 * fl64 0.0025) * 30) * fl64 3.6) = fl64 4.05"
  by (simp only: fl64_lit_0025 fl64_mul_15_mpp fl64_mul_u1_30 fl64_lit_36 fl64_mul_u2_c36
      fl64_lit_405)

lemma raw64_example2:
  "raw_speed_spec ieee64 30 (0, 0) (0, 0) = 0"
  "raw_speed_spec ieee64 30 (0, 0) (15, 0) = fl64 4.05"
  unfolding raw_speed_spec_def ieee64_fields norm64_values2
  by (rule kmh64_0, rule kmh64_15)

lemma ema64_example2:
  "ema_step_spec ieee64 0 (fl64 4.05) = 341992096703447 / 2 ^ 48"
  unfolding ema_step_spec_def ieee64_fields
  by (simp only: fl64_lit_03 fl64_lit_405 fl64_mul_a_u3 mult_zero_right fl64_zero
      fl64_add_w1_0)

lemma reported64_example2:
  "reported_spec ieee64 0 = 0"
  "reported_spec ieee64 (341992096703447 / 2 ^ 48) = fl64 1.21"
proof -
  show "reported_spec ieee64 0 = 0"
    by (simp add: reported_spec_def ieee64_fields round2_64_def fl64_zero
        round_half_even_def)
  have m: "min (341992096703447 / 2 ^ 48) (160::real) = 341992096703447 / 2 ^ 48" by simp
  have r: "round_half_even (8549802417586175 / 2 ^ 46) = 121"
    by (simp add: round_half_even_def Let_def)
  show "reported_spec ieee64 (341992096703447 / 2 ^ 48) = fl64 1.21"
    unfolding reported_spec_def ieee64_fields m round2_64_def
    by (simp only: fl64_w2_100 r of_int_numeral fl64_div_121_100 fl64_lit_121)
qed

text \<open>
  Claim C1, as amended. For frame rates from 0 to \<open>10\<^sup>6\<close> and \<^verbatim>\<open>int64\<close> wrist coordinates,
  whatever the float arithmetic: on a fresh estimator the first wrist yields 0 and changes
  nothing but the stored previous wrist; for every stream of observations, with or without
  wrist, the returned speeds are those of \<open>bat_spec\<close>, that is, 0 on a frame without a wrist
  and on the first wrist after such a frame, and otherwise the next value of the
  recurrence \<open>ema\<^sub>n = 0.3 * raw\<^sub>n + 0.7 * ema\<^sub>n\<^sub>-\<^sub>1\<close>, seeded with the first raw speed, capped at
  160 and rounded to two decimals, where a raw speed is the pixel displacement from the
  previous wrist times 0.0025 times fps times 3.6, every operation being a float
  operation; on a stream where every frame has a wrist these are 0, the rounded first raw
  speed and the rounded values of the recurrence. In binary64, for the wrists (0,0),
  (10,0), (10,0), (30,0) at 30 fps the raw speeds are the floats 2.7, 0 and 5.4, the
  averages the floats 2.7, 1.89 and 2.943, and the returned speeds 0 and the floats 2.7,
  1.89 and 2.94, with either way of rounding to two decimals: frame 3 reports the average
  1.89, not the raw 0.
\<close>

theorem bat_speed_follows_ema_recurrence:
  assumes "0 \<le> f" and "f \<le> 10 ^ 6" and "int64_point w0" and "list_all int64_obs ws"
  shows
  "SpeedEstimator_bat_speed ops (init_speed_estimator ops f) (Some w0) =
     ((init_speed_estimator ops f)\<lparr>prev_wrist := Some w0\<rparr>, 0)
   \<and> bat_speeds ops (init_speed_estimator ops f) ws = bat_spec ops f None None ws
   \<and> (ws = map Some (w0 # w1 # ps) \<longrightarrow>
        bat_speeds ops (init_speed_estimator ops f) ws =
          0 # reported_spec ops (raw_speed_spec ops f w0 w1)
            # map (reported_spec ops)
                (ema_spec ops (raw_speed_spec ops f w0 w1) (raw_speeds_spec ops f w1 ps)))
   \<and> raw_speeds_spec ieee64 30 (0, 0) [(10, 0), (10, 0), (30, 0)] = [fl64 2.7, 0, fl64 5.4]
   \<and> ema_spec ieee64 (fl64 2.7) [0, fl64 5.4] = [fl64 1.89, fl64 2.943]
   \<and> bat_speeds ieee64 (init_speed_estimator ieee64 30)
        (map Some [(0, 0), (10, 0), (10, 0), (30, 0)]) = [0, fl64 2.7, fl64 1.89, fl64 2.94]
   \<and> bat_speeds ieee64_py (init_speed_estimator ieee64_py 30)
        (map Some [(0, 0), (10, 0), (10, 0), (30, 0)]) = [0, fl64 2.7, fl64 1.89, fl64 2.94]
   \<and> \<bar>fl64 2.7 - 2.7\<bar> < 1 / 10 ^ 15 \<and> \<bar>fl64 1.89 - 1.89\<bar> < 1 / 10 ^ 15
   \<and> \<bar>fl64 2.94 - 2.94\<bar> < 1 / 10 ^ 15"
proof (intro conjI impI)
  show "SpeedEstimator_bat_speed ops (init_speed_estimator ops f) (Some w0) =
     ((init_speed_estimator ops f)\<lparr>prev_wrist := Some w0\<rparr>, 0)"
    by (simp add: bat_speed_seed init_speed_estimator_def)
next
  show "bat_speeds ops (init_speed_estimator ops f) ws = bat_spec ops f None None ws"
    by (rule bat_speeds_fresh)
next
  assume "ws = map Some (w0 # w1 # ps)"
  then show "bat_speeds ops (init_speed_estimator ops f) ws =
          0 # reported_spec ops (raw_speed_spec ops f w0 w1)
            # map (reported_spec ops)
                (ema_spec ops (raw_speed_spec ops f w0 w1) (raw_speeds_spec ops f w1 ps))"
    by (simp only: bat_speeds_fresh bat_spec_fresh_gap_free)
next
  show r: "raw_speeds_spec ieee64 30 (0, 0) [(10, 0), (10, 0), (30, 0)] = [fl64 2.7, 0, fl64 5.4]"
    by (simp only: raw_speeds_spec.simps raw64_example)
  show e: "ema_spec ieee64 (fl64 2.7) [0, fl64 5.4] = [fl64 1.89, fl64 2.943]"
    by (simp only: ema_spec.simps ema64_example)
  have "bat_speeds ieee64 (init_speed_estimator ieee64 30)
          (map Some ((0, 0) # (10, 0) # [(10, 0), (30, 0)])) =
        0 # reported_spec ieee64 (raw_speed_spec ieee64 30 (0, 0) (10, 0))
          # map (reported_spec ieee64)
              (ema_spec ieee64 (raw_speed_spec ieee64 30 (0, 0) (10, 0))
                 (raw_speeds_spec ieee64 30 (10, 0) [(10, 0), (30, 0)]))"
    by (simp only: bat_speeds_fresh bat_spec_fresh_gap_free)
  also have "\<dots> = 0 # reported_spec ieee64 (fl64 2.7)
                   # map (reported_spec ieee64) [fl64 1.89, fl64 2.943]"
    by (simp only: raw_speeds_spec.simps raw64_example e)
  also have "\<dots> = [0, fl64 2.7, fl64 1.89, fl64 2.94]"
    by (simp only: list.map reported64_example)
  finally show "bat_speeds ieee64 (init_speed_estimator ieee64 30)
        (map Some [(0, 0), (10, 0), (10, 0), (30, 0)]) = [0, fl64 2.7, fl64 1.89, fl64 2.94]" .
  have "bat_speeds ieee64_py (init_speed_estimator ieee64_py 30)
          (map Some ((0, 0) # (10, 0) # [(10, 0), (30, 0)])) =
        0 # reported_spec ieee64_py (raw_speed_spec ieee64_py 30 (0, 0) (10, 0))
          # map (reported_spec ieee64_py)
              (ema_spec ieee64_py (raw_speed_spec ieee64_py 30 (0, 0) (10, 0))
                 (raw_speeds_spec ieee64_py 30 (10, 0) [(10, 0), (30, 0)]))"
    by (simp only: bat_speeds_fresh bat_spec_fresh_gap_free)
  also have "\<dots> = 0 # reported_spec ieee64_py (fl64 2.7)
                   # map (reported_spec ieee64_py) [fl64 1.89, fl64 2.943]"
    by (simp only: raw_speeds_spec.simps ema_spec.simps spec_round2_irrelevant raw64_example
        ema64_example)
  also have "\<dots> = [0, fl64 2.7, fl64 1.89, fl64 2.94]"
    by (simp only: list.map reported_py_example)
  finally show "bat_speeds ieee64_py (init_speed_estimator ieee64_py 30)
        (map Some [(0, 0), (10, 0), (10, 0), (30, 0)]) = [0, fl64 2.7, fl64 1.89, fl64 2.94]" .
qed (rule fl64_near)+

theorem bat_speed_follows_ema_recurrence_witness:
  "(0::real) \<le> 30 \<and> (30::real) \<le> 10 ^ 6 \<and> int64_point (0, 0)
   \<and> list_all int64_obs [Some (0, 0), Some (0, 0), Some (15, 0)]
   \<and> bat_speeds ieee64 (init_speed_estimator ieee64 30) [Some (0, 0), Some (0, 0), Some (15, 0)]
       = [0, 0, fl64 1.21]"
proof -
  have h: "(0::real) \<le> 30" "(30::real) \<le> 10 ^ 6" "int64_point (0, 0)"
    "list_all int64_obs [Some (0, 0), Some (0, 0), Some (15, 0)]"
    by (simp_all add: int64_point_def int64_obs_def)
  from bat_speed_follows_ema_recurrence [OF h, of ieee64]
  have "bat_speeds ieee64 (init_speed_estimator ieee64 30)
          [Some (0, 0), Some (0, 0), Some (15, 0)] =
        bat_spec ieee64 30 None None [Some (0, 0), Some (0, 0), Some (15, 0)]"
    by blast
  also have "\<dots> = [0, 0, fl64 1.21]"
    by (simp only: bat_spec.simps raw64_example2 ema64_example2 reported64_example2)
  finally show ?thesis using h by simp
qed

text \<open>
  Claim C1 as stated fails on a stream with a frame without a wrist: for the observations
  (0,0), none, (10,0) at 30 fps the third frame has a wrist and follows the first observed
  wrist, yet it returns 0 and no average is stored, where the claim has the raw speed of
  the displacement from (0,0), the float 2.7, reported.
\<close>

theorem bat_speed_after_gap_counterexample:
  "bat_speeds ieee64 (init_speed_estimator ieee64 30) [Some (0, 0), None, Some (10, 0)]
     = [0, 0, 0]
   \<and> bat_ema (run_bat ieee64 (init_speed_estimator ieee64 30 :: unit speed_estimator)
        [Some (0, 0), None, Some (10, 0)]) = None
   \<and> reported_spec ieee64 (raw_speed_spec ieee64 30 (0, 0) (10, 0)) = fl64 2.7
   \<and> fl64 2.7 \<noteq> 0"
proof -
  have "fl64 2.7 \<noteq> 0" unfolding fl64_lit_27 by simp
  then show ?thesis
    by (simp add: raw64_example reported64_example SpeedEstimator_bat_speed_def
        init_speed_estimator_def)
qed

text \<open>
  Claim C10. A call of \<^verbatim>\<open>_bat_speed\<close> without a wrist returns 0, leaves the moving average
  as it is and sets the stored previous wrist to \<open>None\<close>; the next call with a wrist returns
  0 as well and only stores that wrist.
\<close>

theorem missing_wrist_restarts_bat_tracking:
  "SpeedEstimator_bat_speed ops self None = (self\<lparr>prev_wrist := None\<rparr>, 0)
   \<and> bat_ema (fst (SpeedEstimator_bat_speed ops self None)) = bat_ema self
   \<and> prev_wrist (fst (SpeedEstimator_bat_speed ops self None)) = None
   \<and> SpeedEstimator_bat_speed ops (fst (SpeedEstimator_bat_speed ops self None)) (Some w) =
       (self\<lparr>prev_wrist := Some w\<rparr>, 0)"
  by (simp add: bat_speed_None bat_speed_seed)

lemma ball_speed_no_contour:
  assumes "prev_gray self = Some pg" and "motion pg g = Inr contours"
    and "no_qualifying_contour contours"
  shows "SpeedEstimator_ball_speed ops motion self (Some g) =
    (self\<lparr>prev_gray := Some g\<rparr>, Inr 0)"
  using assms
  by (auto simp add: SpeedEstimator_ball_speed_def no_qualifying_contour_def Let_def
      split: list.splits)

text \<open>
  Claim C2, as amended. On a frame with no qualifying contour (after a first frame has
  been seen) \<^verbatim>\<open>_ball_speed\<close> returns 0 and replaces the stored previous grayscale frame
  only: the rolling window of samples and the stored previous ball center are both left
  as they were.
\<close>

theorem ball_speed_without_contour_keeps_center:
  assumes "prev_gray self = Some pg" and "motion pg g = Inr contours"
    and "no_qualifying_contour contours"
  shows "SpeedEstimator_ball_speed ops motion self (Some g) =
      (self\<lparr>prev_gray := Some g\<rparr>, Inr 0)
    \<and> ball_speeds (fst (SpeedEstimator_ball_speed ops motion self (Some g))) = ball_speeds self
    \<and> prev_ball_center (fst (SpeedEstimator_ball_speed ops motion self (Some g))) =
        prev_ball_center self"
  using ball_speed_no_contour [of self pg motion g contours ops] assms by simp

lemma ball_tracked_eq:
  "ball_tracked =
     \<lparr>fps = 30, meters_per_pixel = fl64 0.0025, prev_wrist = None, bat_ema = None,
      alpha = fl64 0.3, prev_gray = Some 2, prev_ball_center = Some (12, 12),
      ball_speeds = []\<rparr>"
  by (simp add: ball_tracked_def init_speed_estimator_def SpeedEstimator_ball_speed_def
      ball_demo_motion_def Let_def ieee64_fields)

theorem ball_speed_without_contour_keeps_center_witness:
  "SpeedEstimator_ball_speed ieee64 ball_demo_motion ball_tracked (Some 3) =
     (ball_tracked\<lparr>prev_gray := Some 3\<rparr>, Inr 0)
   \<and> prev_gray ball_tracked = Some 2 \<and> ball_demo_motion 2 3 = Inr []
   \<and> no_qualifying_contour []"
proof -
  have h: "prev_gray ball_tracked = Some 2" "ball_demo_motion 2 3 = Inr []"
    "no_qualifying_contour []"
    by (simp_all add: ball_tracked_eq ball_demo_motion_def no_qualifying_contour_def)
  from ball_speed_without_contour_keeps_center
         [of ball_tracked 2 ball_demo_motion 3 "[]" ieee64] h
  show ?thesis by simp
qed

lemma fl64_27_2: "fl64 (27 / 2) = 27 / 2"
  by (subst fl64_scaled [where n = 49]) (simp_all add: round_half_even_def Let_def)

lemma mean64_single: "mean64 [27 / 2] = 27 / 2"
  by (simp add: mean64_def fl64_27_2)

lemma ball_frame4_value:
  "round2_64 (min (mean64 [fl64 (fl64 (fl64 (50 * fl64 0.0025) * 30) * fl64 3.6)]) 160) = 13.5"
proof -
  have m: "min (27 / 2) (160::real) = 27 / 2" by simp
  have "(13.5::real) = 27 / 2" by simp
  then show ?thesis
    unfolding kmh64_50 mean64_single m by (simp only: round64_values)
qed

text \<open>
  Claim C2 as stated fails: in the concrete stream, frame 3 has no contour and returns 0,
  yet the stored center is still (12, 12) afterwards, not \<open>None\<close>; and frame 4 reports
  13.5 km/h, the displacement from that kept center (50 pixels), where a restarted
  tracking would report 0.
\<close>

theorem ball_center_reset_counterexample:
  "ball_demo_motion 2 3 = Inr []
   \<and> snd (SpeedEstimator_ball_speed ieee64 ball_demo_motion ball_tracked (Some 3)) = Inr 0
   \<and> prev_ball_center
        (fst (SpeedEstimator_ball_speed ieee64 ball_demo_motion ball_tracked (Some 3)))
       = Some (12, 12)
   \<and> prev_ball_center
        (fst (SpeedEstimator_ball_speed ieee64 ball_demo_motion ball_tracked (Some 3)))
       \<noteq> None
   \<and> snd (SpeedEstimator_ball_speed ieee64 ball_demo_motion
            (fst (SpeedEstimator_ball_speed ieee64 ball_demo_motion ball_tracked (Some 3)))
            (Some 4))
       = Inr 13.5"
proof -
  have a: "SpeedEstimator_ball_speed ieee64 ball_demo_motion ball_tracked (Some 3) =
      (ball_tracked\<lparr>prev_gray := Some 3\<rparr>, Inr 0)"
    by (simp add: ball_tracked_eq SpeedEstimator_ball_speed_def ball_demo_motion_def Let_def)
  have b: "snd (SpeedEstimator_ball_speed ieee64 ball_demo_motion
              (ball_tracked\<lparr>prev_gray := Some 3\<rparr>) (Some 4)) =
      Inr (round2_64 (min (mean64 [fl64 (fl64 (fl64 (50 * fl64 0.0025) * 30) * fl64 3.6)])
             160))"
    by (simp add: ball_tracked_eq SpeedEstimator_ball_speed_def ball_demo_motion_def Let_def
        ieee64_fields norm64_values speed_kmh_def deque_append_def del: min.absorb1 min.absorb2)
  show ?thesis
    unfolding a
    by (simp only: fst_conv snd_conv b ball_frame4_value)
       (simp add: ball_tracked_eq ball_demo_motion_def)
qed

section \<open>Properties of the pose engine\<close>

lemma xmul_commute: "xmul x y = xmul y x"
  by (cases x; cases y) (simp_all add: mult.commute)

lemma np_dot_commute: "np_dot ops u v = np_dot ops v u"
  by (simp add: np_dot_def xmul_commute [of "fst u"] xmul_commute [of "snd u"])

lemma cosine_symmetric: "cosine ops a b c = cosine ops c b a"
  by (simp add: cosine_def Let_def np_dot_commute [of ops "limb ops a b"]
      xmul_commute [of "vec_norm ops (limb ops a b)"])




















text \<open>
  Claim C8. Whatever the float arithmetic, swapping the two end points while keeping the
  vertex in the middle does not change the result of \<^verbatim>\<open>calculate_angle\<close>, be it an angle
  or the error.
\<close>

theorem calculate_angle_symmetric:
  "calculate_angle ops a b c = calculate_angle ops c b a"
  by (simp add: calculate_angle_def cosine_symmetric [of ops a b c])




















lemma np_round64_fields:
  "rnd np_round64 s x = rnd64 x" "lit04 np_round64 = fl64 0.4" "lit06 np_round64 = fl64 0.6"
  by (simp_all add: np_round64_def)

lemma demo_kpts_134_x:
  "kpt_x demo_kpts_134 11 = Inr 134" "kpt_x demo_kpts_134 12 = Inr 134"
  "kpt_x demo_kpts_134 15 = Inr 100" "kpt_x demo_kpts_134 16 = Inr 200"
  by (simp_all add: kpt_x_def demo_kpts_134_def nth_append)

text \<open>
  In binary64 the hips at 134 give the ratio 0.34, its complement 0.6599999999999999 and
  the percentage 65.99999999999999, which \<^verbatim>\<open>int\<close> truncates to 65.
\<close>

lemma weight_transfer_binary64_example:
  "calculate_weight_transfer np_round64 demo_kpts_134 = ''65% Back''"
proof -
  have w: "\<not> np_lt (feet_width np_round64 100 200) (Fin 10)"
    by (simp add: feet_width_def np_round64_fields fl64_w_m100)
  have r: "pos_ratio np_round64 134 134 100 200 = Fin (6124895493223875 / 18014398509481984)"
    by (simp add: pos_ratio_def Let_def np_round64_fields xsub_def clip_def fl64_w_268
        fl64_w_134 fl64_w_34 fl64_w_100 fl64_w_ratio)
  have b: "back_pct np_round64 (Fin (6124895493223875 / 18014398509481984)) =
      Fin (4644337115725823 / 70368744177664)"
    by (simp add: back_pct_def np_round64_fields xsub_def fl64_w_comp fl64_w_pct)
  have i: "py_int (4644337115725823 / 70368744177664) = 65"
    by (simp add: py_int_def)
  have s: "str_int 65 = ''65''"
    by (simp add: str_int_def digit_char_def digits.simps)
  show ?thesis
    by (simp add: calculate_weight_transfer_def demo_kpts_134_x weight_text_def Let_def w r b i
        s np_round64_fields fl64_w_lit06 fl64_w_lit04)
qed

end
